theory Spec2Isabelle
  imports Complex_Main "HOL-Library.DAList"
begin

section \<open>Python values and dictionaries\<close>

text \<open>
  The quote aggregator of \<^verbatim>\<open>tab3.py\<close> moves dictionaries of dynamically typed values
  between the market-data clients and its caller. The values that the code inspects are
  \<^verbatim>\<open>None\<close>, numbers and strings; booleans and nested containers are left out of the
  payloads. A number is a Python \<^verbatim>\<open>int\<close> or \<^verbatim>\<open>float\<close>; the type \<open>'n\<close> of numbers is
  left open, so that it has room for every float, NaN and the infinities included. A
  string stands for a Python \<^verbatim>\<open>str\<close> in its UTF-8 encoding.
\<close>

datatype 'n pyval = PNone | PNum 'n | PStr string

text \<open>
  A dictionary keeps its items in insertion order and has unique keys:
  an association list with distinct keys.
\<close>

type_synonym 'n pydict = "(string, 'n pyval) alist"

datatype pyexn =
    KeyError string
  | TypeError
  | AttributeError
  | ZeroDivisionError
  | OverflowError
  | ValueError string
  | ImportError
  | ApiError string

text \<open>
  What the code takes from the Python runtime and not from the repository: the arithmetic
  of numbers and the case mapping of Unicode. They are parameters of the model.
  \<^item> \<open>num_is_zero x\<close> is \<^verbatim>\<open>x == 0\<close>, the test behind the truth value of a number;
  \<^item> \<open>num_gt_zero x\<close> is \<^verbatim>\<open>x > 0\<close>;
  \<^item> \<open>num_sub x y\<close> is \<^verbatim>\<open>x - y\<close>, which raises \<^verbatim>\<open>OverflowError\<close> when an int is too
    large to meet a float;
  \<^item> \<open>num_truediv x y\<close> is \<^verbatim>\<open>x / y\<close>, which raises \<^verbatim>\<open>ZeroDivisionError\<close> or
    \<^verbatim>\<open>OverflowError\<close>;
  \<^item> \<open>num_mul_int x n\<close> is \<^verbatim>\<open>x * n\<close> for the integer literals 100 and 1000000 of the
    source;
  \<^item> \<open>upper_beyond_ascii run\<close> is \<^verbatim>\<open>str.upper\<close> on a run of characters beyond ASCII.
\<close>

record 'n runtime =
  num_is_zero :: "'n \<Rightarrow> bool"
  num_gt_zero :: "'n \<Rightarrow> bool"
  num_sub :: "'n \<Rightarrow> 'n \<Rightarrow> pyexn + 'n"
  num_truediv :: "'n \<Rightarrow> 'n \<Rightarrow> pyexn + 'n"
  num_mul_int :: "'n \<Rightarrow> nat \<Rightarrow> 'n"
  upper_beyond_ascii :: "string \<Rightarrow> string"

text \<open>Truth value of an object (\<^verbatim>\<open>if x:\<close>).\<close>

fun truthy :: "'n runtime \<Rightarrow> 'n pyval \<Rightarrow> bool" where
  "truthy rt PNone = False"
| "truthy rt (PNum x) = (\<not> num_is_zero rt x)"
| "truthy rt (PStr s) = (s \<noteq> [])"

definition truthy_dict :: "'n pydict \<Rightarrow> bool" where
  "truthy_dict d = (DAList.impl_of d \<noteq> [])"

text \<open>\<^verbatim>\<open>a or b\<close> yields \<^verbatim>\<open>a\<close> when it is truthy and \<^verbatim>\<open>b\<close> otherwise.\<close>

definition py_or :: "'n runtime \<Rightarrow> 'n pyval \<Rightarrow> 'n pyval \<Rightarrow> 'n pyval" where
  "py_or rt a b = (if truthy rt a then a else b)"

text \<open>\<^verbatim>\<open>d.get(k)\<close>, \<^verbatim>\<open>d[k]\<close>, \<^verbatim>\<open>k in d\<close>, \<^verbatim>\<open>d.items()\<close>.\<close>

definition dict_get :: "'n pydict \<Rightarrow> string \<Rightarrow> 'n pyval" where
  "dict_get d k = (case DAList.lookup d k of None \<Rightarrow> PNone | Some v \<Rightarrow> v)"

definition dict_index :: "'n pydict \<Rightarrow> string \<Rightarrow> pyexn + 'n pyval" where
  "dict_index d k = (case DAList.lookup d k of None \<Rightarrow> Inl (KeyError k) | Some v \<Rightarrow> Inr v)"

definition dict_contains :: "'n pydict \<Rightarrow> string \<Rightarrow> bool" where
  "dict_contains d k = (DAList.lookup d k \<noteq> None)"

definition dict_items :: "'n pydict \<Rightarrow> (string \<times> 'n pyval) list" where
  "dict_items d = DAList.impl_of d"

text \<open>
  A dictionary display \<^verbatim>\<open>{k1: v1, k2: v2}\<close> stores its items from left to right;
  \<^verbatim>\<open>d.update(other)\<close> stores every item of \<^verbatim>\<open>other\<close> into \<^verbatim>\<open>d\<close>.
\<close>

fun store_items :: "(string \<times> 'n pyval) list \<Rightarrow> 'n pydict \<Rightarrow> 'n pydict" where
  "store_items [] d = d"
| "store_items ((k, v) # kvs) d = store_items kvs (DAList.update k v d)"

definition dict_of :: "(string \<times> 'n pyval) list \<Rightarrow> 'n pydict" where
  "dict_of kvs = store_items kvs DAList.empty"

definition dict_update :: "'n pydict \<Rightarrow> 'n pydict \<Rightarrow> 'n pydict" where
  "dict_update d other = store_items (dict_items other) d"

text \<open>
  Arithmetic and comparison raise \<^verbatim>\<open>TypeError\<close> on operands that are not numbers; on
  numbers they are the runtime's. Both products in the source have an integer literal on
  the right; a string times an integer is the repeated string.
\<close>

fun py_gt_zero :: "'n runtime \<Rightarrow> 'n pyval \<Rightarrow> pyexn + bool" where
  "py_gt_zero rt (PNum x) = Inr (num_gt_zero rt x)"
| "py_gt_zero rt v = Inl TypeError"

fun py_sub :: "'n runtime \<Rightarrow> 'n pyval \<Rightarrow> 'n pyval \<Rightarrow> pyexn + 'n pyval" where
  "py_sub rt (PNum x) (PNum y) =
     (case num_sub rt x y of Inl e \<Rightarrow> Inl e | Inr d \<Rightarrow> Inr (PNum d))"
| "py_sub rt a b = Inl TypeError"

fun py_div :: "'n runtime \<Rightarrow> 'n pyval \<Rightarrow> 'n pyval \<Rightarrow> pyexn + 'n pyval" where
  "py_div rt (PNum x) (PNum y) =
     (case num_truediv rt x y of Inl e \<Rightarrow> Inl e | Inr r \<Rightarrow> Inr (PNum r))"
| "py_div rt a b = Inl TypeError"

fun py_mul_int :: "'n runtime \<Rightarrow> 'n pyval \<Rightarrow> nat \<Rightarrow> pyexn + 'n pyval" where
  "py_mul_int rt (PNum x) n = Inr (PNum (num_mul_int rt x n))"
| "py_mul_int rt (PStr s) n = Inr (PStr (concat (replicate n s)))"
| "py_mul_int rt PNone n = Inl TypeError"

text \<open>
  \<^verbatim>\<open>str.upper()\<close> maps every character on its own. On ASCII the letters a to z move to
  A to Z and nothing else changes. A character beyond ASCII is encoded by bytes from 128
  on only, so the text splits into ASCII characters and runs of such bytes; what becomes
  of a run is the runtime's matter.
\<close>

definition lowercase_letters :: string where
  "lowercase_letters = ''abcdefghijklmnopqrstuvwxyz''"

definition uppercase_letters :: string where
  "uppercase_letters = ''ABCDEFGHIJKLMNOPQRSTUVWXYZ''"

definition ascii_upper :: "char \<Rightarrow> char" where
  "ascii_upper c =
     (case map_of (zip lowercase_letters uppercase_letters) c of Some u \<Rightarrow> u | None \<Rightarrow> c)"

definition is_ascii :: "char \<Rightarrow> bool" where
  "is_ascii c = (of_char c < (128::nat))"

fun upper_from :: "(string \<Rightarrow> string) \<Rightarrow> string \<Rightarrow> string \<Rightarrow> string" where
  "upper_from tbl run [] = (if run = [] then [] else tbl run)"
| "upper_from tbl run (c # cs) =
     (if is_ascii c
      then (if run = [] then [] else tbl run) @ ascii_upper c # upper_from tbl [] cs
      else upper_from tbl (run @ [c]) cs)"

definition upper :: "'n runtime \<Rightarrow> string \<Rightarrow> string" where
  "upper rt s = upper_from (upper_beyond_ascii rt) [] s"

section \<open>Utility functions\<close>

text \<open>
  \<^verbatim>\<open>safe_api_call(func, error_msg, default_return)\<close> runs \<^verbatim>\<open>func\<close> inside
  \<^verbatim>\<open>try ... except Exception\<close>: an exception is logged and the default is returned.
  The log is not part of the state here, so the message is not an argument.
\<close>

definition safe_api_call :: "(unit \<Rightarrow> pyexn + 'a) \<Rightarrow> 'a \<Rightarrow> 'a" where
  "safe_api_call func default_return =
     (case func () of Inr v \<Rightarrow> v | Inl e \<Rightarrow> default_return)"

text \<open>\<^verbatim>\<open>validate_api_key\<close> raises \<^verbatim>\<open>ValueError\<close> on a missing or empty key.\<close>

definition validate_api_key :: "string option \<Rightarrow> string \<Rightarrow> pyexn + unit" where
  "validate_api_key key key_name =
     (if key = None \<or> key = Some []
      then Inl (ValueError (key_name @ '' not found in .env file''))
      else Inr ())"

section \<open>Stock data providers\<close>

text \<open>
  \<^verbatim>\<open>StockDataProvider\<close> is the abstract base class: two methods taking a ticker.
  A method of an arbitrary subclass may return \<^verbatim>\<open>None\<close>, a dictionary, or raise.
\<close>

record 'n provider =
  get_quote :: "string \<Rightarrow> pyexn + 'n pydict option"
  get_company_info :: "string \<Rightarrow> pyexn + 'n pydict option"

subsection \<open>Finnhub\<close>

text \<open>
  The Finnhub client library is external. Each of its three calls may raise or return a
  JSON object (or nothing). Of the financials response the code reads only the entry
  \<^verbatim>\<open>'metric'\<close>: it is missing, a dictionary, or some other value.
\<close>

datatype 'n financials = NoMetric | MetricDict "'n pydict" | MetricOther "'n pyval"

record 'n finnhub_client =
  fh_quote :: "string \<Rightarrow> pyexn + 'n pydict option"
  fh_company_profile2 :: "string \<Rightarrow> pyexn + 'n pydict option"
  fh_company_basic_financials :: "string \<Rightarrow> pyexn + 'n financials option"

text \<open>The nested function \<^verbatim>\<open>_get_quote\<close> of \<^verbatim>\<open>FinnhubProvider.get_quote\<close>.\<close>

definition Finnhub_inner_get_quote :: "'n runtime \<Rightarrow> 'n finnhub_client \<Rightarrow> string \<Rightarrow> unit \<Rightarrow> pyexn + 'n pydict option" where
  "Finnhub_inner_get_quote rt client ticker u =
     (case fh_quote client ticker of
        Inl e \<Rightarrow> Inl e
      | Inr None \<Rightarrow> Inr None
      | Inr (Some quote) \<Rightarrow>
          if \<not> truthy_dict quote then Inr None
          else if \<not> truthy rt (dict_get quote ''c'') then Inr None
          else (case dict_index quote ''c'' of
             Inl e \<Rightarrow> Inl e
           | Inr c \<Rightarrow> (case py_gt_zero rt c of
               Inl e \<Rightarrow> Inl e
             | Inr False \<Rightarrow> Inr None
             | Inr True \<Rightarrow> (case dict_index quote ''pc'' of
                 Inl e \<Rightarrow> Inl e
               | Inr pc \<Rightarrow> (case dict_index quote ''d'' of
                   Inl e \<Rightarrow> Inl e
                 | Inr d \<Rightarrow> (case dict_index quote ''dp'' of
                     Inl e \<Rightarrow> Inl e
                   | Inr dp \<Rightarrow> Inr (Some (dict_of
                       [(''price'', c),
                        (''previous_close'', pc),
                        (''change'', d),
                        (''change_percent'', dp),
                        (''high'', dict_get quote ''h''),
                        (''low'', dict_get quote ''l''),
                        (''open'', dict_get quote ''o'')]))))))))"

definition FinnhubProvider_get_quote :: "'n runtime \<Rightarrow> 'n finnhub_client \<Rightarrow> string \<Rightarrow> pyexn + 'n pydict option" where
  "FinnhubProvider_get_quote rt client ticker =
     Inr (safe_api_call (Finnhub_inner_get_quote rt client ticker) None)"

text \<open>The nested functions \<^verbatim>\<open>_get_profile\<close> and \<^verbatim>\<open>_get_metrics\<close>.\<close>

definition Finnhub_inner_get_profile :: "'n runtime \<Rightarrow> 'n finnhub_client \<Rightarrow> string \<Rightarrow> unit \<Rightarrow> pyexn + 'n pydict" where
  "Finnhub_inner_get_profile rt client ticker u =
     (case fh_company_profile2 client ticker of
        Inl e \<Rightarrow> Inl e
      | Inr None \<Rightarrow> Inr DAList.empty
      | Inr (Some profile) \<Rightarrow>
          if \<not> truthy_dict profile then Inr DAList.empty
          else (let market_cap = dict_get profile ''marketCapitalization'' in
            case (if truthy rt market_cap then py_mul_int rt market_cap 1000000 else Inr PNone) of
              Inl e \<Rightarrow> Inl e
            | Inr cap \<Rightarrow> Inr (dict_of
                [(''market_cap'', cap),
                 (''name'', dict_get profile ''name''),
                 (''industry'', dict_get profile ''finnhubIndustry'')])))"

definition Finnhub_inner_get_metrics :: "'n runtime \<Rightarrow> 'n finnhub_client \<Rightarrow> string \<Rightarrow> unit \<Rightarrow> pyexn + 'n pydict" where
  "Finnhub_inner_get_metrics rt client ticker u =
     (case fh_company_basic_financials client ticker of
        Inl e \<Rightarrow> Inl e
      | Inr None \<Rightarrow> Inr DAList.empty
      | Inr (Some NoMetric) \<Rightarrow> Inr DAList.empty
      | Inr (Some (MetricOther v)) \<Rightarrow> Inl AttributeError
      | Inr (Some (MetricDict metric)) \<Rightarrow> Inr (dict_of
          [(''pe_ratio'', py_or rt (dict_get metric ''peBasicExclExtraTTM'')
                                (dict_get metric ''peTTM''))]))"

definition FinnhubProvider_get_company_info :: "'n runtime \<Rightarrow> 'n finnhub_client \<Rightarrow> string \<Rightarrow> pyexn + 'n pydict option" where
  "FinnhubProvider_get_company_info rt client ticker =
     (let info = DAList.empty;
          profile_data = safe_api_call (Finnhub_inner_get_profile rt client ticker) DAList.empty;
          info = dict_update info profile_data;
          metrics_data = safe_api_call (Finnhub_inner_get_metrics rt client ticker) DAList.empty;
          info = dict_update info metrics_data
      in Inr (if truthy_dict info then Some info else None))"

definition FinnhubProvider :: "'n runtime \<Rightarrow> 'n finnhub_client \<Rightarrow> 'n provider" where
  "FinnhubProvider rt client =
     \<lparr>get_quote = FinnhubProvider_get_quote rt client,
      get_company_info = FinnhubProvider_get_company_info rt client\<rparr>"

subsection \<open>Yahoo Finance\<close>

text \<open>
  Of the yfinance module the code uses \<^verbatim>\<open>Ticker(ticker).info\<close>: a dictionary,
  nothing, or an exception. Within one run the answer for a ticker is taken to be the same
  each time it is read.
\<close>

record 'n yfinance_client =
  yf_info :: "string \<Rightarrow> pyexn + 'n pydict option"

definition YFinance_inner_get_quote :: "'n runtime \<Rightarrow> 'n yfinance_client \<Rightarrow> string \<Rightarrow> unit \<Rightarrow> pyexn + 'n pydict option" where
  "YFinance_inner_get_quote rt yf ticker u =
     (case yf_info yf ticker of
        Inl e \<Rightarrow> Inl e
      | Inr None \<Rightarrow> Inr None
      | Inr (Some info) \<Rightarrow>
          if \<not> truthy_dict info \<or> \<not> dict_contains info ''currentPrice'' then Inr None
          else (let current = py_or rt (dict_get info ''currentPrice'')
                                    (dict_get info ''regularMarketPrice'');
                    prev_close = dict_get info ''previousClose''
            in if truthy rt current \<and> truthy rt prev_close
               then (case py_sub rt current prev_close of
                   Inl e \<Rightarrow> Inl e
                 | Inr change \<Rightarrow> (case py_div rt change prev_close of
                     Inl e \<Rightarrow> Inl e
                   | Inr ratio \<Rightarrow> (case py_mul_int rt ratio 100 of
                       Inl e \<Rightarrow> Inl e
                     | Inr change_pct \<Rightarrow> Inr (Some (dict_of
                         [(''price'', current),
                          (''previous_close'', prev_close),
                          (''change'', change),
                          (''change_percent'', change_pct),
                          (''high'', dict_get info ''dayHigh''),
                          (''low'', dict_get info ''dayLow''),
                          (''open'', dict_get info ''open''),
                          (''volume'', dict_get info ''volume'')])))))
               else Inr None))"

definition YFinanceProvider_get_quote :: "'n runtime \<Rightarrow> 'n yfinance_client \<Rightarrow> string \<Rightarrow> pyexn + 'n pydict option" where
  "YFinanceProvider_get_quote rt yf ticker =
     Inr (safe_api_call (YFinance_inner_get_quote rt yf ticker) None)"

definition YFinance_inner_get_info :: "'n runtime \<Rightarrow> 'n yfinance_client \<Rightarrow> string \<Rightarrow> unit \<Rightarrow> pyexn + 'n pydict" where
  "YFinance_inner_get_info rt yf ticker u =
     (case yf_info yf ticker of
        Inl e \<Rightarrow> Inl e
      | Inr None \<Rightarrow> Inl AttributeError
      | Inr (Some info) \<Rightarrow> Inr (dict_of
          [(''market_cap'', dict_get info ''marketCap''),
           (''pe_ratio'', py_or rt (dict_get info ''trailingPE'') (dict_get info ''forwardPE'')),
           (''volume'', dict_get info ''volume''),
           (''name'', py_or rt (dict_get info ''longName'') (dict_get info ''shortName'')),
           (''industry'', dict_get info ''industry''),
           (''sector'', dict_get info ''sector'')]))"

definition YFinanceProvider_get_company_info :: "'n runtime \<Rightarrow> 'n yfinance_client \<Rightarrow> string \<Rightarrow> pyexn + 'n pydict option" where
  "YFinanceProvider_get_company_info rt yf ticker =
     Inr (Some (safe_api_call (YFinance_inner_get_info rt yf ticker) DAList.empty))"

definition YFinanceProvider :: "'n runtime \<Rightarrow> 'n yfinance_client \<Rightarrow> 'n provider" where
  "YFinanceProvider rt yf =
     \<lparr>get_quote = YFinanceProvider_get_quote rt yf,
      get_company_info = YFinanceProvider_get_company_info rt yf\<rparr>"


section \<open>The unified fetcher\<close>

text \<open>
  The constructors run in an environment: importing a client library and building the
  client may raise. \<^verbatim>\<open>FinnhubProvider.__init__\<close> validates the key first.
\<close>

record 'n environment =
  finnhub_Client :: "string option \<Rightarrow> pyexn + 'n finnhub_client"
  import_yfinance :: "pyexn + 'n yfinance_client"

definition FinnhubProvider_init :: "'n runtime \<Rightarrow> 'n environment \<Rightarrow> string option \<Rightarrow> pyexn + 'n provider" where
  "FinnhubProvider_init rt env api_key =
     (case validate_api_key api_key ''Finnhub API key'' of
        Inl e \<Rightarrow> Inl e
      | Inr u \<Rightarrow> (case finnhub_Client env api_key of
          Inl e \<Rightarrow> Inl e
        | Inr client \<Rightarrow> Inr (FinnhubProvider rt client)))"

definition YFinanceProvider_init :: "'n runtime \<Rightarrow> 'n environment \<Rightarrow> pyexn + 'n provider" where
  "YFinanceProvider_init rt env =
     (case import_yfinance env of Inl e \<Rightarrow> Inl e | Inr yf \<Rightarrow> Inr (YFinanceProvider rt yf))"

record 'n stock_data_fetcher =
  providers :: "'n provider list"

text \<open>
  \<^verbatim>\<open>StockDataFetcher.__init__\<close>: each provider is built inside its own
  \<^verbatim>\<open>try ... except Exception\<close>, which logs and goes on. The result type leaves room
  for a constructor that raises.
\<close>

definition StockDataFetcher_init :: "'n runtime \<Rightarrow> 'n environment \<Rightarrow> string option \<Rightarrow> pyexn + 'n stock_data_fetcher" where
  "StockDataFetcher_init rt env finnhub_key =
     (let ps = [];
          ps = (if finnhub_key \<noteq> None \<and> finnhub_key \<noteq> Some []
                then (case FinnhubProvider_init rt env finnhub_key of
                        Inl e \<Rightarrow> ps
                      | Inr p \<Rightarrow> ps @ [p])
                else ps);
          ps = (case YFinanceProvider_init rt env of
                  Inl e \<Rightarrow> ps
                | Inr p \<Rightarrow> ps @ [p])
      in Inr \<lparr>providers = ps\<rparr>)"

text \<open>
  Every call of a provider method is recorded with the position of the provider in
  the list, so that a run shows which providers were asked and in which order.
\<close>

datatype call = GetQuote nat | GetCompanyInfo nat

text \<open>
  First loop of \<^verbatim>\<open>get_live_stock_price\<close>: ask each provider for a quote, store the
  first truthy one into \<^verbatim>\<open>result\<close> and leave the loop. The loop has no exception
  handler of its own.
\<close>

fun quote_loop :: "nat \<Rightarrow> 'n provider list \<Rightarrow> string \<Rightarrow> 'n pydict \<Rightarrow> call list \<times> (pyexn + 'n pydict)" where
  "quote_loop i [] ticker result = ([], Inr result)"
| "quote_loop i (p # ps) ticker result =
     (case get_quote p ticker of
        Inl e \<Rightarrow> ([GetQuote i], Inl e)
      | Inr None \<Rightarrow>
          (case quote_loop (Suc i) ps ticker result of (tr, out) \<Rightarrow> (GetQuote i # tr, out))
      | Inr (Some quote) \<Rightarrow>
          if truthy_dict quote then ([GetQuote i], Inr (dict_update result quote))
          else (case quote_loop (Suc i) ps ticker result of (tr, out) \<Rightarrow> (GetQuote i # tr, out)))"

text \<open>
  The inner loop over \<^verbatim>\<open>company_info.items()\<close>: a value is stored when its key is not
  in \<^verbatim>\<open>result\<close> and the value is not \<^verbatim>\<open>None\<close>.
\<close>

fun add_missing :: "(string \<times> 'n pyval) list \<Rightarrow> 'n pydict \<Rightarrow> 'n pydict" where
  "add_missing [] result = result"
| "add_missing ((key, val) # items) result =
     add_missing items
       (if \<not> dict_contains result key \<and> val \<noteq> PNone
        then DAList.update key val result else result)"

text \<open>Second loop: every provider is asked for company information.\<close>

fun info_loop :: "nat \<Rightarrow> 'n provider list \<Rightarrow> string \<Rightarrow> 'n pydict \<Rightarrow> call list \<times> (pyexn + 'n pydict)" where
  "info_loop i [] ticker result = ([], Inr result)"
| "info_loop i (p # ps) ticker result =
     (case get_company_info p ticker of
        Inl e \<Rightarrow> ([GetCompanyInfo i], Inl e)
      | Inr None \<Rightarrow>
          (case info_loop (Suc i) ps ticker result of (tr, out) \<Rightarrow> (GetCompanyInfo i # tr, out))
      | Inr (Some company_info) \<Rightarrow>
          (case info_loop (Suc i) ps ticker
                  (if truthy_dict company_info
                   then add_missing (dict_items company_info) result else result) of
             (tr, out) \<Rightarrow> (GetCompanyInfo i # tr, out)))"

text \<open>
  \<^verbatim>\<open>get_live_stock_price(self, ticker)\<close>. The argument \<open>now\<close> is the formatted
  reading of the clock. The result pairs the provider calls made with the outcome:
  an exception, \<^verbatim>\<open>None\<close>, or the merged dictionary.
\<close>

definition get_live_stock_price ::
    "'n runtime \<Rightarrow> 'n stock_data_fetcher \<Rightarrow> string \<Rightarrow> string \<Rightarrow> call list \<times> (pyexn + 'n pydict option)" where
  "get_live_stock_price rt self now ticker =
     (if providers self = [] then ([], Inr None)
      else (case quote_loop 0 (providers self) ticker DAList.empty of
          (tr1, Inl e) \<Rightarrow> (tr1, Inl e)
        | (tr1, Inr result) \<Rightarrow>
            if \<not> truthy_dict result then (tr1, Inr None)
            else (case info_loop 0 (providers self) ticker result of
                (tr2, Inl e) \<Rightarrow> (tr1 @ tr2, Inl e)
              | (tr2, Inr result) \<Rightarrow>
                  (tr1 @ tr2,
                   Inr (Some (DAList.update ''timestamp'' (PStr now)
                               (DAList.update ''ticker'' (PStr (upper rt ticker)) result)))))))"

section \<open>Notions used to state the properties\<close>

text \<open>
  A provider gave no usable quote when its \<^verbatim>\<open>get_quote\<close> returned \<^verbatim>\<open>None\<close> or an
  empty dictionary: these are the outcomes on which the first loop goes on.
\<close>

definition no_quote :: "pyexn + 'n pydict option \<Rightarrow> bool" where
  "no_quote r = (case r of Inl e \<Rightarrow> False | Inr None \<Rightarrow> True | Inr (Some q) \<Rightarrow> \<not> truthy_dict q)"

text \<open>
  The value that one company-information result offers for a key: the stored value when
  there is one and it is not \<^verbatim>\<open>None\<close>. The first value offered along a list of results
  is the field-level merge as the specification words it: the first non-null value in
  priority order.
\<close>

definition offered :: "'n pydict option \<Rightarrow> string \<Rightarrow> 'n pyval option" where
  "offered ci k =
     (case ci of None \<Rightarrow> None
      | Some d \<Rightarrow> (case DAList.lookup d k of
          None \<Rightarrow> None
        | Some v \<Rightarrow> if v = PNone then None else Some v))"

fun first_non_null :: "'n pydict option list \<Rightarrow> string \<Rightarrow> 'n pyval option" where
  "first_non_null [] k = None"
| "first_non_null (ci # infos) k =
     (case offered ci k of Some v \<Rightarrow> Some v | None \<Rightarrow> first_non_null infos k)"

fun is_get_quote :: "call \<Rightarrow> bool" where
  "is_get_quote (GetQuote i) = True"
| "is_get_quote (GetCompanyInfo i) = False"

section \<open>Test doubles and scenarios\<close>

text \<open>
  A runtime for the examples. Its numbers are reals and its arithmetic is exact; beyond
  ASCII it leaves the text alone. It stands in for Python on the examples only: the
  numbers that enter their arithmetic are small integers with quotients such as 0.25 and
  1.5, on which Python's floating-point results are exact too; every other number is
  passed along as it came; and their text is ASCII. No statement about all inputs uses it.
\<close>

definition example_runtime :: "real runtime" where
  "example_runtime =
     \<lparr>num_is_zero = (\<lambda>x. x = 0),
      num_gt_zero = (\<lambda>x. 0 < x),
      num_sub = (\<lambda>x y. Inr (x - y)),
      num_truediv = (\<lambda>x y. if y = 0 then Inl ZeroDivisionError else Inr (x / y)),
      num_mul_int = (\<lambda>x n. x * of_nat n),
      upper_beyond_ascii = (\<lambda>run. run)\<rparr>"

text \<open>
  A provider with fixed answers, a provider whose methods raise, and clients that answer
  every ticker alike.
\<close>

definition stub_provider :: "real pydict option \<Rightarrow> real pydict option \<Rightarrow> real provider" where
  "stub_provider quote info =
     \<lparr>get_quote = (\<lambda>ticker. Inr quote), get_company_info = (\<lambda>ticker. Inr info)\<rparr>"

definition raising_provider :: "real provider" where
  "raising_provider =
     \<lparr>get_quote = (\<lambda>ticker. Inl (ApiError ''down'')),
      get_company_info = (\<lambda>ticker. Inl (ApiError ''down''))\<rparr>"

definition const_finnhub ::
    "(pyexn + real pydict option) \<Rightarrow> (pyexn + real pydict option) \<Rightarrow> (pyexn + real financials option) \<Rightarrow> real finnhub_client" where
  "const_finnhub q p m =
     \<lparr>fh_quote = (\<lambda>ticker. q), fh_company_profile2 = (\<lambda>ticker. p),
      fh_company_basic_financials = (\<lambda>ticker. m)\<rparr>"

definition const_yfinance :: "(pyexn + real pydict option) \<Rightarrow> real yfinance_client" where
  "const_yfinance info = \<lparr>yf_info = (\<lambda>ticker. info)\<rparr>"

definition failing_finnhub :: "real finnhub_client" where
  "failing_finnhub =
     const_finnhub (Inl (ApiError ''down'')) (Inl (ApiError ''down'')) (Inl (ApiError ''down''))"

definition failing_yfinance :: "real yfinance_client" where
  "failing_yfinance = const_yfinance (Inl (ApiError ''down''))"

text \<open>
  The scenario of the specification: provider A throws on every call, B has a price of
  150 and neither P/E ratio nor market capitalisation, C has a price of 155, a P/E ratio
  of 30.2 and a market capitalisation.
\<close>

definition yfinance_B :: "real yfinance_client" where
  "yfinance_B = const_yfinance (Inr (Some (dict_of
      [(''currentPrice'', PNum 150), (''previousClose'', PNum 120)])))"

definition yfinance_C :: "real yfinance_client" where
  "yfinance_C = const_yfinance (Inr (Some (dict_of
      [(''currentPrice'', PNum 155), (''previousClose'', PNum 124), (''trailingPE'', PNum 30.2),
       (''marketCap'', PNum 3000000000000)])))"

definition scenario_A :: "real provider" where
  "scenario_A = FinnhubProvider example_runtime failing_finnhub"

definition scenario_B :: "real provider" where
  "scenario_B = YFinanceProvider example_runtime yfinance_B"

definition scenario_C :: "real provider" where
  "scenario_C = YFinanceProvider example_runtime yfinance_C"

definition scenario_quote_B :: "real pydict" where
  "scenario_quote_B = dict_of
     [(''price'', PNum 150), (''previous_close'', PNum 120), (''change'', PNum 30),
      (''change_percent'', PNum 25), (''high'', PNone), (''low'', PNone),
      (''open'', PNone), (''volume'', PNone)]"

definition scenario_infos :: "real pydict option list" where
  "scenario_infos =
     [None,
      Some (dict_of [(''market_cap'', PNone), (''pe_ratio'', PNone), (''volume'', PNone),
                     (''name'', PNone), (''industry'', PNone), (''sector'', PNone)]),
      Some (dict_of [(''market_cap'', PNum 3000000000000), (''pe_ratio'', PNum 30.2),
                     (''volume'', PNone),
                     (''name'', PNone), (''industry'', PNone), (''sector'', PNone)])]"

definition aapl_result :: "real pydict" where
  "aapl_result = dict_of
     [(''price'', PNum 150), (''previous_close'', PNum 120), (''change'', PNum 30),
      (''change_percent'', PNum 25), (''high'', PNone), (''low'', PNone),
      (''open'', PNone), (''volume'', PNone), (''ticker'', PStr ''AAPL''),
      (''timestamp'', PStr ''2026-01-02 10:00:00'')]"

text \<open>
  An environment in which both client libraries load but the Finnhub service is down,
  and one in which neither library loads.
\<close>

definition failing_finnhub_env :: "real environment" where
  "failing_finnhub_env =
     \<lparr>finnhub_Client = (\<lambda>api_key. Inr failing_finnhub), import_yfinance = Inr yfinance_B\<rparr>"

definition broken_env :: "real environment" where
  "broken_env =
     \<lparr>finnhub_Client = (\<lambda>api_key. Inl ImportError), import_yfinance = Inl ImportError\<rparr>"

text \<open>A provider with a price only.\<close>

definition priced_provider :: "real provider" where
  "priced_provider = stub_provider (Some (dict_of [(''price'', PNum 5)])) None"

text \<open>
  A Finnhub service that knows the symbol \<^verbatim>\<open>AAPL\<close> in this spelling only and answers
  any other symbol with a quote of zeros, and the record the fetcher returns for
  \<^verbatim>\<open>AAPL\<close>.
\<close>

definition case_sensitive_finnhub :: "real finnhub_client" where
  "case_sensitive_finnhub =
     \<lparr>fh_quote = (\<lambda>ticker. if ticker = ''AAPL''
          then Inr (Some (dict_of
            [(''c'', PNum 150), (''pc'', PNum 120), (''d'', PNum 30), (''dp'', PNum 25)]))
          else Inr (Some (dict_of
            [(''c'', PNum 0), (''pc'', PNum 0), (''d'', PNone), (''dp'', PNone)]))),
      fh_company_profile2 = (\<lambda>ticker. Inr None),
      fh_company_basic_financials = (\<lambda>ticker. Inr None)\<rparr>"

definition finnhub_aapl_result :: "real pydict" where
  "finnhub_aapl_result = dict_of
     [(''price'', PNum 150), (''previous_close'', PNum 120), (''change'', PNum 30),
      (''change_percent'', PNum 25), (''high'', PNone), (''low'', PNone),
      (''open'', PNone), (''ticker'', PStr ''AAPL''),
      (''timestamp'', PStr ''2026-01-02 10:00:00'')]"

text \<open>A Yahoo Finance payload with a negative current price.\<close>

definition negative_price_yfinance :: "real yfinance_client" where
  "negative_price_yfinance = const_yfinance (Inr (Some (dict_of
      [(''currentPrice'', PNum (- 5)), (''previousClose'', PNum 10)])))"

text \<open>
  A Finnhub payload whose fields \<^verbatim>\<open>d\<close> and \<^verbatim>\<open>dp\<close> do not agree with \<^verbatim>\<open>c\<close> and
  \<^verbatim>\<open>pc\<close>, and the quote built from it.
\<close>

definition inconsistent_finnhub :: "real finnhub_client" where
  "inconsistent_finnhub = const_finnhub
      (Inr (Some (dict_of [(''c'', PNum 10), (''pc'', PNum 8), (''d'', PNum 0), (''dp'', PNum 0)])))
      (Inr None) (Inr None)"

definition inconsistent_quote :: "real pydict" where
  "inconsistent_quote = dict_of
       [(''price'', PNum 10), (''previous_close'', PNum 8), (''change'', PNum 0),
        (''change_percent'', PNum 0), (''high'', PNone), (''low'', PNone), (''open'', PNone)]"

text \<open>
  A Finnhub payload without the day's high, so that the quote carries
  \<^verbatim>\<open>'high': None\<close>, followed by a provider whose company information has a high.
\<close>

definition no_high_finnhub :: "real finnhub_client" where
  "no_high_finnhub = const_finnhub
      (Inr (Some (dict_of [(''c'', PNum 10), (''pc'', PNum 8), (''d'', PNum 2), (''dp'', PNum 25)])))
      (Inr None) (Inr None)"

definition no_high_quote :: "real pydict" where
  "no_high_quote = dict_of
       [(''price'', PNum 10), (''previous_close'', PNum 8), (''change'', PNum 2),
        (''change_percent'', PNum 25), (''high'', PNone), (''low'', PNone), (''open'', PNone)]"

definition high_supplier :: "real provider" where
  "high_supplier =
     stub_provider None (Some (dict_of [(''high'', PNum 12), (''name'', PStr ''Acme'')]))"

definition no_high_result :: "real pydict" where
  "no_high_result = dict_of
       [(''price'', PNum 10), (''previous_close'', PNum 8), (''change'', PNum 2),
        (''change_percent'', PNum 25), (''high'', PNone), (''low'', PNone), (''open'', PNone),
        (''name'', PStr ''Acme''), (''ticker'', PStr ''ACME''),
        (''timestamp'', PStr ''2026-01-02 10:00:00'')]"

section \<open>Dictionaries\<close>

lemma update_fresh: "k \<notin> fst ` set al \<Longrightarrow> AList.update k v al = al @ [(k, v)]"
  by (induction al) auto

lemma lookup_store_items:
  "distinct (map fst kvs) \<Longrightarrow>
   DAList.lookup (store_items kvs d) k =
     (case map_of kvs k of Some v \<Rightarrow> Some v | None \<Rightarrow> DAList.lookup d k)"
proof (induction kvs d rule: store_items.induct)
  case (1 d)
  then show ?case by simp
next
  case (2 k' v kvs d)
  have "map_of kvs k' = None"
    using "2.prems" by (simp add: map_of_eq_None_iff)
  with 2 show ?case
    by (auto simp: DAList.lookup_update split: option.splits)
qed

lemma lookup_dict_update:
  "DAList.lookup (dict_update d other) k =
     (case DAList.lookup other k of Some v \<Rightarrow> Some v | None \<Rightarrow> DAList.lookup d k)"
  by (simp add: dict_update_def dict_items_def lookup_store_items
        DAList.lookup.rep_eq [of other])

lemma impl_of_store_items_fresh:
  "distinct (map fst kvs) \<Longrightarrow> fst ` set kvs \<inter> fst ` set (DAList.impl_of d) = {}
     \<Longrightarrow> DAList.impl_of (store_items kvs d) = DAList.impl_of d @ kvs"
proof (induction kvs d rule: store_items.induct)
  case (1 d)
  then show ?case by simp
next
  case (2 k v kvs d)
  have fresh: "k \<notin> fst ` set (DAList.impl_of d)"
    using "2.prems"(2) by auto
  have step: "DAList.impl_of (DAList.update k v d) = DAList.impl_of d @ [(k, v)]"
    by (simp add: DAList.update.rep_eq update_fresh fresh)
  have "fst ` set kvs \<inter> fst ` set (DAList.impl_of (DAList.update k v d)) = {}"
    using "2.prems" by (auto simp: step)
  with "2.IH" "2.prems"(1) show ?case
    by (simp add: step)
qed

lemma dict_update_empty: "dict_update DAList.empty q = q"
  by (simp add: alist_eq_iff dict_update_def dict_items_def impl_of_store_items_fresh
        DAList.empty.rep_eq)

lemma lookup_add_missing:
  "distinct (map fst items) \<Longrightarrow>
   DAList.lookup (add_missing items r) k =
     (case DAList.lookup r k of
        Some v \<Rightarrow> Some v
      | None \<Rightarrow> (case map_of items k of
          None \<Rightarrow> None
        | Some v \<Rightarrow> if v = PNone then None else Some v))"
proof (induction items r rule: add_missing.induct)
  case (1 r)
  then show ?case by (simp split: option.splits)
next
  case (2 key val items r)
  have "map_of items key = None"
    using "2.prems" by (simp add: map_of_eq_None_iff)
  with 2 show ?case
    by (auto simp: dict_contains_def DAList.lookup_update split: option.splits)
qed

lemma add_missing_keeps:
  "DAList.lookup r k = Some v \<Longrightarrow> DAList.lookup (add_missing items r) k = Some v"
  by (induction items r rule: add_missing.induct) (auto simp: DAList.lookup_update dict_contains_def)

text \<open>Rules that evaluate the dictionary operations and the provider methods on given data.\<close>

lemmas dict_eval = DAList.lookup.rep_eq DAList.update.rep_eq DAList.empty.rep_eq
  dict_of_def dict_get_def dict_index_def dict_contains_def dict_items_def dict_update_def truthy_dict_def
  py_or_def safe_api_call_def

lemmas provider_eval = FinnhubProvider_def FinnhubProvider_get_quote_def Finnhub_inner_get_quote_def
  FinnhubProvider_get_company_info_def Finnhub_inner_get_profile_def Finnhub_inner_get_metrics_def
  YFinanceProvider_def YFinanceProvider_get_quote_def YFinance_inner_get_quote_def
  YFinanceProvider_get_company_info_def YFinance_inner_get_info_def const_finnhub_def const_yfinance_def
  example_runtime_def failing_finnhub_def failing_yfinance_def yfinance_B_def yfinance_C_def

lemmas upper_eval = upper_def is_ascii_def ascii_upper_def lowercase_letters_def
  uppercase_letters_def example_runtime_def

section \<open>The two loops\<close>

lemma map_upt_Cons: "n < j \<Longrightarrow> f n # map f [Suc n ..< j] = map f [n ..< j]"
  by (simp add: upt_conv_Cons)

lemma filter_quote_calls [simp]:
  "filter is_get_quote (map GetQuote ns) = map GetQuote ns"
  by (induction ns) auto

lemma quote_loop_none:
  "\<forall>p \<in> set ps. no_quote (get_quote p t) \<Longrightarrow>
   quote_loop n ps t r = (map GetQuote [n ..< n + length ps], Inr r)"
proof (induction ps arbitrary: n)
  case Nil
  then show ?case by simp
next
  case (Cons p ps)
  have "no_quote (get_quote p t)" using Cons.prems by simp
  moreover have "quote_loop (Suc n) ps t r = (map GetQuote [Suc n ..< Suc n + length ps], Inr r)"
    using Cons by simp
  ultimately show ?case
    by (auto simp: no_quote_def map_upt_Cons simp del: upt_Suc split: sum.splits option.splits)
qed

lemma quote_loop_first:
  "\<forall>p \<in> set pre. no_quote (get_quote p t) \<Longrightarrow> get_quote p t = Inr (Some q) \<Longrightarrow> truthy_dict q \<Longrightarrow>
   quote_loop n (pre @ p # post) t r = (map GetQuote [n ..< n + Suc (length pre)], Inr (dict_update r q))"
proof (induction pre arbitrary: n)
  case Nil
  then show ?case by simp
next
  case (Cons a pre)
  have "no_quote (get_quote a t)" using Cons.prems by simp
  moreover have "quote_loop (Suc n) (pre @ p # post) t r =
      (map GetQuote [Suc n ..< Suc n + Suc (length pre)], Inr (dict_update r q))"
    using Cons by simp
  ultimately show ?case
    by (auto simp: no_quote_def map_upt_Cons simp del: upt_Suc split: sum.splits option.splits)
qed

lemma info_loop_all:
  "map (\<lambda>p. get_company_info p t) ps = map Inr infos \<Longrightarrow>
   \<exists>r'. info_loop n ps t r = (map GetCompanyInfo [n ..< n + length ps], Inr r') \<and>
         (\<forall>k. DAList.lookup r' k =
            (case DAList.lookup r k of Some v \<Rightarrow> Some v | None \<Rightarrow> first_non_null infos k))"
proof (induction ps arbitrary: n r infos)
  case Nil
  then show ?case by (auto split: option.splits)
next
  case (Cons p ps)
  then obtain ci infos' where infos: "infos = ci # infos'" and p: "get_company_info p t = Inr ci"
    and rest: "map (\<lambda>p. get_company_info p t) ps = map Inr infos'"
    by (cases infos) auto
  define r1 where "r1 = (case ci of None \<Rightarrow> r
      | Some d \<Rightarrow> if truthy_dict d then add_missing (dict_items d) r else r)"
  have r1: "DAList.lookup r1 k =
      (case DAList.lookup r k of Some v \<Rightarrow> Some v | None \<Rightarrow> offered ci k)" for k
  proof (cases ci)
    case None
    then show ?thesis by (simp add: r1_def offered_def split: option.splits)
  next
    case (Some d)
    show ?thesis
    proof (cases "truthy_dict d")
      case True
      have "DAList.lookup r1 k =
          (case DAList.lookup r k of
             Some v \<Rightarrow> Some v
           | None \<Rightarrow> (case map_of (DAList.impl_of d) k of
               None \<Rightarrow> None
             | Some v \<Rightarrow> if v = PNone then None else Some v))"
        using Some True by (simp add: r1_def lookup_add_missing dict_items_def)
      also have "\<dots> = (case DAList.lookup r k of Some v \<Rightarrow> Some v | None \<Rightarrow> offered ci k)"
        unfolding Some offered_def DAList.lookup.rep_eq by (simp cong: option.case_cong)
      finally show ?thesis .
    next
      case False
      then have "DAList.lookup d k = None"
        by (simp add: truthy_dict_def DAList.lookup.rep_eq)
      with Some False show ?thesis
        by (simp add: r1_def offered_def split: option.splits)
    qed
  qed
  from Cons.IH [OF rest, of "Suc n" r1] obtain r' where
    loop: "info_loop (Suc n) ps t r1 = (map GetCompanyInfo [Suc n ..< Suc n + length ps], Inr r')"
    and look: "\<forall>k. DAList.lookup r' k =
            (case DAList.lookup r1 k of Some v \<Rightarrow> Some v | None \<Rightarrow> first_non_null infos' k)"
    by blast
  have "info_loop n (p # ps) t r = (map GetCompanyInfo [n ..< n + length (p # ps)], Inr r')"
    using p loop by (auto simp: r1_def map_upt_Cons simp del: upt_Suc split: option.splits)
  moreover have "\<forall>k. DAList.lookup r' k =
      (case DAList.lookup r k of Some v \<Rightarrow> Some v | None \<Rightarrow> first_non_null infos k)"
    using look by (auto simp: r1 infos split: option.splits)
  ultimately show ?case by blast
qed

lemma info_loop_keeps:
  "info_loop n ps t r = (tr, out) \<Longrightarrow>
     (\<forall>c \<in> set tr. \<not> is_get_quote c) \<and>
     (case out of
        Inl e \<Rightarrow> \<exists>p \<in> set ps. get_company_info p t = Inl e
      | Inr r' \<Rightarrow> \<forall>k v. DAList.lookup r k = Some v \<longrightarrow> DAList.lookup r' k = Some v)"
proof (induction ps arbitrary: n r tr out)
  case Nil
  then show ?case by auto
next
  case (Cons p ps)
  show ?case
  proof (cases "get_company_info p t")
    case (Inl e)
    with Cons.prems show ?thesis by auto
  next
    case (Inr ci)
    define r1 where "r1 = (case ci of None \<Rightarrow> r
      | Some d \<Rightarrow> if truthy_dict d then add_missing (dict_items d) r else r)"
    have keep1: "DAList.lookup r k = Some v \<Longrightarrow> DAList.lookup r1 k = Some v" for k v
      by (simp add: r1_def add_missing_keeps split: option.splits)
    obtain tr' out' where rest: "info_loop (Suc n) ps t r1 = (tr', out')"
      by (cases "info_loop (Suc n) ps t r1")
    have res: "tr = GetCompanyInfo n # tr'" "out = out'"
      using Cons.prems Inr rest by (auto simp: r1_def split: option.splits)
    from Cons.IH [OF rest] have
      ih1: "\<forall>c \<in> set tr'. \<not> is_get_quote c" and
      ih2: "(case out' of
        Inl e \<Rightarrow> \<exists>p \<in> set ps. get_company_info p t = Inl e
      | Inr r' \<Rightarrow> \<forall>k v. DAList.lookup r1 k = Some v \<longrightarrow> DAList.lookup r' k = Some v)"
      by blast+
    have "\<forall>c \<in> set tr. \<not> is_get_quote c"
      using ih1 res by simp
    moreover have "(case out of
        Inl e \<Rightarrow> \<exists>p' \<in> set (p # ps). get_company_info p' t = Inl e
      | Inr r' \<Rightarrow> \<forall>k v. DAList.lookup r k = Some v \<longrightarrow> DAList.lookup r' k = Some v)"
      using ih2 res keep1 by (auto split: sum.splits)
    ultimately show ?thesis by blast
  qed
qed

lemma quote_loop_no_raise:
  "\<forall>p \<in> set ps. \<not> isl (get_quote p t) \<Longrightarrow> \<not> isl (snd (quote_loop n ps t r))"
  by (induction ps arbitrary: n) (auto simp: case_prod_unfold split: sum.splits option.splits)

lemma info_loop_no_raise:
  "\<forall>p \<in> set ps. \<not> isl (get_company_info p t) \<Longrightarrow> \<not> isl (snd (info_loop n ps t r))"
  by (induction ps arbitrary: n r) (auto simp: case_prod_unfold split: sum.splits option.splits)

lemma get_live_stock_price_no_raise:
  assumes "\<forall>p \<in> set ps. \<not> isl (get_quote p t) \<and> \<not> isl (get_company_info p t)"
  shows "\<not> isl (snd (get_live_stock_price rt \<lparr>providers = ps\<rparr> now t))"
proof -
  have q: "\<not> isl (snd (quote_loop 0 ps t DAList.empty))"
    using assms by (simp add: quote_loop_no_raise)
  have i: "\<not> isl (snd (info_loop 0 ps t r))" for r
    using assms by (simp add: info_loop_no_raise)
  obtain tr1 out1 where l1: "quote_loop 0 ps t DAList.empty = (tr1, out1)"
    by (cases "quote_loop 0 ps t DAList.empty")
  with q obtain result where out1: "out1 = Inr result"
    by (cases out1) auto
  obtain tr2 out2 where l2: "info_loop 0 ps t result = (tr2, out2)"
    by (cases "info_loop 0 ps t result")
  with i [of result] obtain result' where out2: "out2 = Inr result'"
    by (cases out2) auto
  show ?thesis
    using l1 out1 l2 out2 by (simp add: get_live_stock_price_def)
qed

section \<open>Results of the two provider classes\<close>

lemma py_sub_Inr:
  "py_sub rt a b = Inr v \<Longrightarrow>
   \<exists>x y d. a = PNum x \<and> b = PNum y \<and> num_sub rt x y = Inr d \<and> v = PNum d"
  by (cases a; cases b) (auto split: sum.splits)

lemma py_div_Inr:
  "py_div rt a b = Inr v \<Longrightarrow>
   \<exists>x y r. a = PNum x \<and> b = PNum y \<and> num_truediv rt x y = Inr r \<and> v = PNum r"
  by (cases a; cases b) (auto split: sum.splits)

lemma py_gt_zero_Inr: "py_gt_zero rt a = Inr b \<Longrightarrow> \<exists>x. a = PNum x \<and> b = num_gt_zero rt x"
  by (cases a) auto

lemma safe_api_call_Some:
  "safe_api_call f None = Some v \<Longrightarrow> f () = Inr (Some v)"
  by (auto simp: safe_api_call_def split: sum.splits)

lemma YFinance_quote_shape:
  assumes "get_quote (YFinanceProvider rt yf) t = Inr (Some q)"
  shows "\<exists>info c p d r. yf_info yf t = Inr (Some info)
    \<and> \<not> num_is_zero rt c \<and> \<not> num_is_zero rt p
    \<and> PNum c = py_or rt (dict_get info ''currentPrice'') (dict_get info ''regularMarketPrice'')
    \<and> PNum p = dict_get info ''previousClose''
    \<and> num_sub rt c p = Inr d \<and> num_truediv rt d p = Inr r
    \<and> q = dict_of
         [(''price'', PNum c),
          (''previous_close'', PNum p),
          (''change'', PNum d),
          (''change_percent'', PNum (num_mul_int rt r 100)),
          (''high'', dict_get info ''dayHigh''),
          (''low'', dict_get info ''dayLow''),
          (''open'', dict_get info ''open''),
          (''volume'', dict_get info ''volume'')]"
proof -
  from assms have inner: "YFinance_inner_get_quote rt yf t () = Inr (Some q)"
    by (simp add: YFinanceProvider_def YFinanceProvider_get_quote_def safe_api_call_Some)
  then obtain info where info: "yf_info yf t = Inr (Some info)"
    by (auto simp: YFinance_inner_get_quote_def split: sum.splits option.splits)
  define current where
    "current = py_or rt (dict_get info ''currentPrice'') (dict_get info ''regularMarketPrice'')"
  define prev_close where "prev_close = dict_get info ''previousClose''"
  from inner info have tr: "truthy rt current" "truthy rt prev_close"
    by (auto simp: YFinance_inner_get_quote_def Let_def current_def prev_close_def
          split: if_splits)
  from inner info tr obtain change ratio change_pct where
    sub: "py_sub rt current prev_close = Inr change" and
    dv: "py_div rt change prev_close = Inr ratio" and
    mul: "py_mul_int rt ratio 100 = Inr change_pct" and
    q: "q = dict_of
         [(''price'', current),
          (''previous_close'', prev_close),
          (''change'', change),
          (''change_percent'', change_pct),
          (''high'', dict_get info ''dayHigh''),
          (''low'', dict_get info ''dayLow''),
          (''open'', dict_get info ''open''),
          (''volume'', dict_get info ''volume'')]"
    by (auto simp: YFinance_inner_get_quote_def Let_def current_def prev_close_def
          split: if_splits sum.splits)
  from py_sub_Inr [OF sub] obtain c p d where
    cp: "current = PNum c" "prev_close = PNum p" "num_sub rt c p = Inr d" "change = PNum d"
    by blast
  from py_div_Inr [OF dv] cp obtain r where
    r: "num_truediv rt d p = Inr r" "ratio = PNum r"
    by auto
  from mul r have pct: "change_pct = PNum (num_mul_int rt r 100)"
    by auto
  from tr cp have nz: "\<not> num_is_zero rt c" "\<not> num_is_zero rt p"
    by auto
  have "yf_info yf t = Inr (Some info)
    \<and> \<not> num_is_zero rt c \<and> \<not> num_is_zero rt p
    \<and> PNum c = py_or rt (dict_get info ''currentPrice'') (dict_get info ''regularMarketPrice'')
    \<and> PNum p = dict_get info ''previousClose''
    \<and> num_sub rt c p = Inr d \<and> num_truediv rt d p = Inr r
    \<and> q = dict_of
         [(''price'', PNum c),
          (''previous_close'', PNum p),
          (''change'', PNum d),
          (''change_percent'', PNum (num_mul_int rt r 100)),
          (''high'', dict_get info ''dayHigh''),
          (''low'', dict_get info ''dayLow''),
          (''open'', dict_get info ''open''),
          (''volume'', dict_get info ''volume'')]"
    using info cp r pct q nz unfolding current_def prev_close_def by simp
  then show ?thesis by blast
qed

lemma Finnhub_quote_shape:
  assumes "get_quote (FinnhubProvider rt client) t = Inr (Some q)"
  shows "\<exists>resp c pc d dp. fh_quote client t = Inr (Some resp) \<and> num_gt_zero rt c
    \<and> DAList.lookup resp ''c'' = Some (PNum c)
    \<and> DAList.lookup resp ''pc'' = Some pc
    \<and> DAList.lookup resp ''d'' = Some d
    \<and> DAList.lookup resp ''dp'' = Some dp
    \<and> q = dict_of
         [(''price'', PNum c),
          (''previous_close'', pc),
          (''change'', d),
          (''change_percent'', dp),
          (''high'', dict_get resp ''h''),
          (''low'', dict_get resp ''l''),
          (''open'', dict_get resp ''o'')]"
proof -
  from assms have inner: "Finnhub_inner_get_quote rt client t () = Inr (Some q)"
    by (simp add: FinnhubProvider_def FinnhubProvider_get_quote_def safe_api_call_Some)
  then obtain resp where resp: "fh_quote client t = Inr (Some resp)"
    by (auto simp: Finnhub_inner_get_quote_def split: sum.splits option.splits)
  from inner resp obtain c0 pc d dp where
    c0: "dict_index resp ''c'' = Inr c0" and gt: "py_gt_zero rt c0 = Inr True" and
    pc: "dict_index resp ''pc'' = Inr pc" and
    d: "dict_index resp ''d'' = Inr d" and
    dp: "dict_index resp ''dp'' = Inr dp" and
    q: "q = dict_of
         [(''price'', c0),
          (''previous_close'', pc),
          (''change'', d),
          (''change_percent'', dp),
          (''high'', dict_get resp ''h''),
          (''low'', dict_get resp ''l''),
          (''open'', dict_get resp ''o'')]"
    by (auto simp: Finnhub_inner_get_quote_def split: if_splits sum.splits bool.splits)
  from py_gt_zero_Inr [OF gt] obtain c where c: "c0 = PNum c" "num_gt_zero rt c"
    by auto
  from c0 pc d dp c have
    "DAList.lookup resp ''c'' = Some (PNum c)" "DAList.lookup resp ''pc'' = Some pc"
    "DAList.lookup resp ''d'' = Some d" "DAList.lookup resp ''dp'' = Some dp"
    by (auto simp: dict_index_def split: option.splits)
  with resp c q show ?thesis by blast
qed

lemma repo_provider_no_raise:
  "\<not> isl (get_quote (case_sum (FinnhubProvider rt) (YFinanceProvider rt) c) t)
   \<and> \<not> isl (get_company_info (case_sum (FinnhubProvider rt) (YFinanceProvider rt) c) t)"
  by (cases c)
     (simp_all add: FinnhubProvider_def FinnhubProvider_get_quote_def
        FinnhubProvider_get_company_info_def YFinanceProvider_def YFinanceProvider_get_quote_def
        YFinanceProvider_get_company_info_def Let_def)

lemma repo_quote_truthy:
  "get_quote (case_sum (FinnhubProvider rt) (YFinanceProvider rt) c) t = Inr (Some q) \<Longrightarrow>
   truthy_dict q \<and> DAList.lookup q ''price'' \<noteq> None
   \<and> DAList.lookup q ''market_cap'' = None \<and> DAList.lookup q ''pe_ratio'' = None
   \<and> DAList.lookup q ''name'' = None \<and> DAList.lookup q ''industry'' = None
   \<and> DAList.lookup q ''sector'' = None
   \<and> DAList.lookup q ''ticker'' = None \<and> DAList.lookup q ''timestamp'' = None"
proof (cases c)
  case (Inl client)
  assume "get_quote (case_sum (FinnhubProvider rt) (YFinanceProvider rt) c) t = Inr (Some q)"
  with Inl have "get_quote (FinnhubProvider rt client) t = Inr (Some q)" by simp
  from Finnhub_quote_shape [OF this] show ?thesis
    by (auto simp: dict_eval)
next
  case (Inr yf)
  assume "get_quote (case_sum (FinnhubProvider rt) (YFinanceProvider rt) c) t = Inr (Some q)"
  with Inr have "get_quote (YFinanceProvider rt yf) t = Inr (Some q)" by simp
  from YFinance_quote_shape [OF this] show ?thesis
    by (auto simp: dict_of_def truthy_dict_def DAList.lookup.rep_eq DAList.update.rep_eq
          DAList.empty.rep_eq)
qed

lemma constructed_providers:
  "StockDataFetcher_init rt env finnhub_key = Inr self \<Longrightarrow>
   \<exists>clients. providers self = map (case_sum (FinnhubProvider rt) (YFinanceProvider rt)) clients"
proof -
  assume init: "StockDataFetcher_init rt env finnhub_key = Inr self"
  have fh: "FinnhubProvider_init rt env finnhub_key = Inr p \<Longrightarrow> \<exists>c. p = FinnhubProvider rt c" for p
    by (auto simp: FinnhubProvider_init_def split: sum.splits)
  have yf: "YFinanceProvider_init rt env = Inr p \<Longrightarrow> \<exists>y. p = YFinanceProvider rt y" for p
    by (auto simp: YFinanceProvider_init_def split: sum.splits)
  have shapes: "providers self = [] \<or> (\<exists>c. providers self = [FinnhubProvider rt c])
      \<or> (\<exists>y. providers self = [YFinanceProvider rt y])
      \<or> (\<exists>c y. providers self = [FinnhubProvider rt c, YFinanceProvider rt y])"
    using init fh yf
    by (auto simp: StockDataFetcher_init_def Let_def split: sum.splits if_splits)
  then consider "providers self = []"
    | c where "providers self = map (case_sum (FinnhubProvider rt) (YFinanceProvider rt)) [Inl c]"
    | y where "providers self = map (case_sum (FinnhubProvider rt) (YFinanceProvider rt)) [Inr y]"
    | c y where "providers self = map (case_sum (FinnhubProvider rt) (YFinanceProvider rt)) [Inl c, Inr y]"
    by auto
  then show ?thesis
    by cases (simp, blast+)
qed

section \<open>First success wins\<close>

text \<open>
  For providers of any kind: when every provider before \<open>p\<close> returns \<^verbatim>\<open>None\<close> or an
  empty dictionary as its quote and \<open>p\<close> returns a non-empty quote \<open>q\<close>, the first loop
  ends at \<open>p\<close> with \<open>q\<close> as the result, and the run asks no later provider for a quote.
\<close>

lemma adopted_quote_general:
  assumes earlier: "\<forall>p' \<in> set pre. no_quote (get_quote p' t)"
    and quote: "get_quote p t = Inr (Some q)"
    and nonempty: "truthy_dict q"
  shows "quote_loop 0 (pre @ p # post) t DAList.empty = (map GetQuote [0 ..< Suc (length pre)], Inr q)
    \<and> filter is_get_quote (fst (get_live_stock_price rt \<lparr>providers = pre @ p # post\<rparr> now t))
        = map GetQuote [0 ..< Suc (length pre)]
    \<and> (case snd (get_live_stock_price rt \<lparr>providers = pre @ p # post\<rparr> now t) of
          Inl e \<Rightarrow> \<exists>p' \<in> set (pre @ p # post). get_company_info p' t = Inl e
        | Inr None \<Rightarrow> False
        | Inr (Some r) \<Rightarrow>
            \<forall>k v. DAList.lookup q k = Some v \<longrightarrow> k \<noteq> ''ticker'' \<longrightarrow> k \<noteq> ''timestamp''
              \<longrightarrow> DAList.lookup r k = Some v)"
proof -
  let ?ps = "pre @ p # post"
  have loop: "quote_loop 0 ?ps t DAList.empty = (map GetQuote [0 ..< Suc (length pre)], Inr q)"
    using quote_loop_first [OF earlier quote nonempty, of 0 post DAList.empty]
    by (simp add: dict_update_empty)
  obtain tr2 out2 where info: "info_loop 0 ?ps t q = (tr2, out2)"
    by (cases "info_loop 0 ?ps t q")
  from info_loop_keeps [OF info] have
    tr2: "\<forall>c \<in> set tr2. \<not> is_get_quote c" and
    out2: "(case out2 of
        Inl e \<Rightarrow> \<exists>p' \<in> set ?ps. get_company_info p' t = Inl e
      | Inr r' \<Rightarrow> \<forall>k v. DAList.lookup q k = Some v \<longrightarrow> DAList.lookup r' k = Some v)"
    by blast+
  have ftr2: "filter is_get_quote tr2 = []"
    using tr2 by (simp add: filter_empty_conv)
  have run: "get_live_stock_price rt \<lparr>providers = ?ps\<rparr> now t =
      (map GetQuote [0 ..< Suc (length pre)] @ tr2,
       case out2 of Inl e \<Rightarrow> Inl e
       | Inr r' \<Rightarrow> Inr (Some (DAList.update ''timestamp'' (PStr now)
                               (DAList.update ''ticker'' (PStr (upper rt t)) r'))))"
    using loop info nonempty
    by (simp add: get_live_stock_price_def del: upt_Suc split: sum.splits)
  show ?thesis
    using loop out2 ftr2
    by (auto simp: run DAList.lookup_update simp del: upt_Suc split: sum.splits)
qed

text \<open>
  Claim C1. Take any list of providers of the two classes of the repository, any ticker,
  and the first provider whose \<^verbatim>\<open>get_quote\<close> returns a quote that is not \<^verbatim>\<open>None\<close>, the
  providers before it having returned \<^verbatim>\<open>None\<close>. Then the first loop takes that quote as
  the base result; the quote calls of the whole run are those of the providers up to that
  one, in list order, and of no later provider; and the run returns a record that holds
  every field of the quote unchanged, the price among them.
\<close>

theorem first_quote_wins:
  assumes earlier: "\<forall>c' \<in> set pre.
        get_quote (case_sum (FinnhubProvider rt) (YFinanceProvider rt) c') t = Inr None"
    and quote: "get_quote (case_sum (FinnhubProvider rt) (YFinanceProvider rt) c) t = Inr (Some q)"
  shows "quote_loop 0 (map (case_sum (FinnhubProvider rt) (YFinanceProvider rt)) (pre @ c # post))
           t DAList.empty = (map GetQuote [0 ..< Suc (length pre)], Inr q)
    \<and> filter is_get_quote (fst (get_live_stock_price rt
          \<lparr>providers = map (case_sum (FinnhubProvider rt) (YFinanceProvider rt)) (pre @ c # post)\<rparr>
          now t)) = map GetQuote [0 ..< Suc (length pre)]
    \<and> (\<exists>r. snd (get_live_stock_price rt
          \<lparr>providers = map (case_sum (FinnhubProvider rt) (YFinanceProvider rt)) (pre @ c # post)\<rparr>
          now t) = Inr (Some r)
        \<and> DAList.lookup q ''price'' \<noteq> None
        \<and> DAList.lookup r ''price'' = DAList.lookup q ''price''
        \<and> (\<forall>k v. DAList.lookup q k = Some v \<longrightarrow> DAList.lookup r k = Some v))"
proof -
  let ?f = "case_sum (FinnhubProvider rt) (YFinanceProvider rt)"
  let ?ps = "map ?f (pre @ c # post)"
  let ?run = "get_live_stock_price rt \<lparr>providers = ?ps\<rparr> now t"
  have split: "?ps = map ?f pre @ ?f c # map ?f post"
    by simp
  have e: "\<forall>p' \<in> set (map ?f pre). no_quote (get_quote p' t)"
    using earlier by (simp add: no_quote_def)
  from repo_quote_truthy [OF quote] have
    tq: "truthy_dict q" and price: "DAList.lookup q ''price'' \<noteq> None" and
    fresh: "DAList.lookup q ''ticker'' = None" "DAList.lookup q ''timestamp'' = None"
    by simp_all
  from adopted_quote_general [OF e quote tq, of "map ?f post" rt now] have
    loop: "quote_loop 0 ?ps t DAList.empty = (map GetQuote [0 ..< Suc (length pre)], Inr q)" and
    calls: "filter is_get_quote (fst ?run) = map GetQuote [0 ..< Suc (length pre)]" and
    out: "(case snd ?run of
          Inl e \<Rightarrow> \<exists>p' \<in> set ?ps. get_company_info p' t = Inl e
        | Inr None \<Rightarrow> False
        | Inr (Some r) \<Rightarrow>
            \<forall>k v. DAList.lookup q k = Some v \<longrightarrow> k \<noteq> ''ticker'' \<longrightarrow> k \<noteq> ''timestamp''
              \<longrightarrow> DAList.lookup r k = Some v)"
    unfolding split by (simp_all del: upt_Suc)
  have "\<not> isl (snd ?run)"
    by (rule get_live_stock_price_no_raise) (auto simp: repo_provider_no_raise)
  with out obtain r where r: "snd ?run = Inr (Some r)" and
    keep: "\<forall>k v. DAList.lookup q k = Some v \<longrightarrow> k \<noteq> ''ticker'' \<longrightarrow> k \<noteq> ''timestamp''
              \<longrightarrow> DAList.lookup r k = Some v"
    by (cases "snd ?run") (auto split: option.splits)
  have all: "\<forall>k v. DAList.lookup q k = Some v \<longrightarrow> DAList.lookup r k = Some v"
  proof (intro allI impI)
    fix k v
    assume kv: "DAList.lookup q k = Some v"
    with fresh have "k \<noteq> ''ticker''" "k \<noteq> ''timestamp''"
      by auto
    with keep kv show "DAList.lookup r k = Some v"
      by blast
  qed
  from price obtain v where "DAList.lookup q ''price'' = Some v"
    by auto
  with all have same: "DAList.lookup r ''price'' = DAList.lookup q ''price''"
    by simp
  from loop calls r price same all show ?thesis
    by blast
qed

text \<open>
  An instance, with the fallback: the Finnhub service is down, so the first provider
  returns \<^verbatim>\<open>None\<close>; the second has the price 150; the third, with the price 155, is not
  asked for a quote.
\<close>

theorem first_quote_wins_witness:
  "get_quote (FinnhubProvider example_runtime failing_finnhub) ''AAPL'' = Inr None
   \<and> get_quote (YFinanceProvider example_runtime yfinance_B) ''AAPL'' = Inr (Some scenario_quote_B)
   \<and> quote_loop 0 [FinnhubProvider example_runtime failing_finnhub,
                     YFinanceProvider example_runtime yfinance_B,
                     YFinanceProvider example_runtime yfinance_C] ''AAPL'' DAList.empty
       = ([GetQuote 0, GetQuote 1], Inr scenario_quote_B)
   \<and> filter is_get_quote (fst (get_live_stock_price example_runtime
         \<lparr>providers = [FinnhubProvider example_runtime failing_finnhub,
                       YFinanceProvider example_runtime yfinance_B,
                       YFinanceProvider example_runtime yfinance_C]\<rparr>
         ''2026-01-02 10:00:00'' ''AAPL'')) = [GetQuote 0, GetQuote 1]
   \<and> (\<exists>r. snd (get_live_stock_price example_runtime
         \<lparr>providers = [FinnhubProvider example_runtime failing_finnhub,
                       YFinanceProvider example_runtime yfinance_B,
                       YFinanceProvider example_runtime yfinance_C]\<rparr>
         ''2026-01-02 10:00:00'' ''AAPL'') = Inr (Some r)
       \<and> DAList.lookup r ''price'' = Some (PNum 150))"
proof -
  have h1: "\<forall>c' \<in> set [Inl failing_finnhub].
        get_quote (case_sum (FinnhubProvider example_runtime) (YFinanceProvider example_runtime) c')
          ''AAPL'' = Inr None"
    by (simp add: provider_eval dict_eval)
  have h2: "get_quote (case_sum (FinnhubProvider example_runtime) (YFinanceProvider example_runtime)
        (Inr yfinance_B)) ''AAPL'' = Inr (Some scenario_quote_B)"
    by (simp add: scenario_quote_B_def provider_eval dict_eval)
  have p: "DAList.lookup scenario_quote_B ''price'' = Some (PNum 150)"
    by (simp add: scenario_quote_B_def dict_eval)
  from first_quote_wins [OF h1 h2, of "[Inr yfinance_C]" "''2026-01-02 10:00:00''"] obtain r where
    c1: "quote_loop 0 [FinnhubProvider example_runtime failing_finnhub,
                     YFinanceProvider example_runtime yfinance_B,
                     YFinanceProvider example_runtime yfinance_C] ''AAPL'' DAList.empty
       = ([GetQuote 0, GetQuote 1], Inr scenario_quote_B)" and
    c2: "filter is_get_quote (fst (get_live_stock_price example_runtime
         \<lparr>providers = [FinnhubProvider example_runtime failing_finnhub,
                       YFinanceProvider example_runtime yfinance_B,
                       YFinanceProvider example_runtime yfinance_C]\<rparr>
         ''2026-01-02 10:00:00'' ''AAPL'')) = [GetQuote 0, GetQuote 1]" and
    c3: "snd (get_live_stock_price example_runtime
         \<lparr>providers = [FinnhubProvider example_runtime failing_finnhub,
                       YFinanceProvider example_runtime yfinance_B,
                       YFinanceProvider example_runtime yfinance_C]\<rparr>
         ''2026-01-02 10:00:00'' ''AAPL'') = Inr (Some r)" and
    c4: "DAList.lookup r ''price'' = DAList.lookup scenario_quote_B ''price''"
    by auto
  from c3 c4 p have "\<exists>r. snd (get_live_stock_price example_runtime
         \<lparr>providers = [FinnhubProvider example_runtime failing_finnhub,
                       YFinanceProvider example_runtime yfinance_B,
                       YFinanceProvider example_runtime yfinance_C]\<rparr>
         ''2026-01-02 10:00:00'' ''AAPL'') = Inr (Some r)
       \<and> DAList.lookup r ''price'' = Some (PNum 150)"
    by simp
  moreover have "get_quote (FinnhubProvider example_runtime failing_finnhub) ''AAPL'' = Inr None"
    using h1 by simp
  moreover have "get_quote (YFinanceProvider example_runtime yfinance_B) ''AAPL''
      = Inr (Some scenario_quote_B)"
    using h2 by simp
  ultimately show ?thesis
    using c1 c2 by blast
qed

section \<open>Field-level merge of company information\<close>

text \<open>
  Claim C2. Once the quote \<open>q\<close> has been adopted, and when every
  \<^verbatim>\<open>get_company_info\<close> call returns, the run asks all providers for company information
  in list order and returns a record in which every key other than \<^verbatim>\<open>ticker\<close> and
  \<^verbatim>\<open>timestamp\<close> holds the value of \<open>q\<close> if \<open>q\<close> has the key, and otherwise the first
  non-null value that the providers offer in list order (the key stays absent when no
  provider offers one). A key that already has an entry is never overwritten.
\<close>

theorem metadata_first_non_null:
  assumes earlier: "\<forall>p' \<in> set pre. no_quote (get_quote p' t)"
    and quote: "get_quote p t = Inr (Some q)"
    and nonempty: "truthy_dict q"
    and infos: "map (\<lambda>p'. get_company_info p' t) (pre @ p # post) = map Inr infos"
  shows "\<exists>r. get_live_stock_price rt \<lparr>providers = pre @ p # post\<rparr> now t =
           (map GetQuote [0 ..< Suc (length pre)] @
            map GetCompanyInfo [0 ..< length (pre @ p # post)], Inr (Some r))
         \<and> (\<forall>k. k \<noteq> ''ticker'' \<longrightarrow> k \<noteq> ''timestamp'' \<longrightarrow>
               DAList.lookup r k =
                 (case DAList.lookup q k of Some v \<Rightarrow> Some v | None \<Rightarrow> first_non_null infos k))"
proof -
  let ?ps = "pre @ p # post"
  have loop: "quote_loop 0 ?ps t DAList.empty = (map GetQuote [0 ..< Suc (length pre)], Inr q)"
    using quote_loop_first [OF earlier quote nonempty, of 0 post DAList.empty]
    by (simp add: dict_update_empty)
  from info_loop_all [OF infos, of 0 q] obtain r' where
    info: "info_loop 0 ?ps t q = (map GetCompanyInfo [0 ..< length ?ps], Inr r')" and
    look: "\<forall>k. DAList.lookup r' k =
            (case DAList.lookup q k of Some v \<Rightarrow> Some v | None \<Rightarrow> first_non_null infos k)"
    by auto
  let ?r = "DAList.update ''timestamp'' (PStr now) (DAList.update ''ticker'' (PStr (upper rt t)) r')"
  have "get_live_stock_price rt \<lparr>providers = ?ps\<rparr> now t =
      (map GetQuote [0 ..< Suc (length pre)] @ map GetCompanyInfo [0 ..< length ?ps], Inr (Some ?r))"
    using loop info nonempty by (simp add: get_live_stock_price_def del: upt_Suc)
  moreover have "\<forall>k. k \<noteq> ''ticker'' \<longrightarrow> k \<noteq> ''timestamp'' \<longrightarrow>
      DAList.lookup ?r k =
        (case DAList.lookup q k of Some v \<Rightarrow> Some v | None \<Rightarrow> first_non_null infos k)"
    using look by (simp add: DAList.lookup_update)
  ultimately show ?thesis by blast
qed

text \<open>
  The scenario of the specification: A throws, B gives the price 150 and no P/E ratio,
  C gives the price 155, the P/E ratio 30.2 and a market capitalisation. The result has B's
  price and C's P/E ratio and market capitalisation.
\<close>

theorem metadata_first_non_null_witness:
  "no_quote (get_quote scenario_A ''AAPL'')
   \<and> get_quote scenario_B ''AAPL'' = Inr (Some scenario_quote_B)
   \<and> truthy_dict scenario_quote_B
   \<and> map (\<lambda>p'. get_company_info p' ''AAPL'') [scenario_A, scenario_B, scenario_C]
       = map Inr scenario_infos
   \<and> (\<exists>r. get_live_stock_price example_runtime \<lparr>providers = [scenario_A, scenario_B, scenario_C]\<rparr>
              ''2026-01-02 10:00:00'' ''AAPL'' =
            ([GetQuote 0, GetQuote 1, GetCompanyInfo 0, GetCompanyInfo 1, GetCompanyInfo 2],
             Inr (Some r))
          \<and> DAList.lookup r ''price'' = Some (PNum 150)
          \<and> DAList.lookup r ''pe_ratio'' = Some (PNum 30.2)
          \<and> DAList.lookup r ''market_cap'' = Some (PNum 3000000000000))"
proof -
  have h1: "\<forall>p' \<in> set [scenario_A]. no_quote (get_quote p' ''AAPL'')"
    by (simp add: scenario_A_def provider_eval dict_eval no_quote_def)
  have h2: "get_quote scenario_B ''AAPL'' = Inr (Some scenario_quote_B)"
    by (simp add: scenario_B_def scenario_quote_B_def provider_eval dict_eval)
  have h3: "truthy_dict scenario_quote_B"
    by (simp add: scenario_quote_B_def dict_eval)
  have h4: "map (\<lambda>p'. get_company_info p' ''AAPL'') ([scenario_A] @ scenario_B # [scenario_C])
       = map Inr scenario_infos"
    by (simp add: scenario_A_def scenario_B_def scenario_C_def scenario_infos_def
          provider_eval dict_eval)
  from metadata_first_non_null
         [OF h1 h2 h3 h4, where rt = example_runtime and now = "''2026-01-02 10:00:00''"]
  obtain r where
    run: "get_live_stock_price example_runtime \<lparr>providers = [scenario_A] @ scenario_B # [scenario_C]\<rparr>
              ''2026-01-02 10:00:00'' ''AAPL'' =
            (map GetQuote [0 ..< Suc (length [scenario_A])] @
             map GetCompanyInfo [0 ..< length ([scenario_A] @ scenario_B # [scenario_C])],
             Inr (Some r))" and
    look: "\<forall>k. k \<noteq> ''ticker'' \<longrightarrow> k \<noteq> ''timestamp'' \<longrightarrow>
               DAList.lookup r k =
                 (case DAList.lookup scenario_quote_B k of Some v \<Rightarrow> Some v
                  | None \<Rightarrow> first_non_null scenario_infos k)"
    by blast
  have c1: "get_live_stock_price example_runtime \<lparr>providers = [scenario_A, scenario_B, scenario_C]\<rparr>
              ''2026-01-02 10:00:00'' ''AAPL'' =
            ([GetQuote 0, GetQuote 1, GetCompanyInfo 0, GetCompanyInfo 1, GetCompanyInfo 2],
             Inr (Some r))"
    using run by simp
  have c2: "DAList.lookup r ''price'' = Some (PNum 150)"
    using look by (simp add: scenario_quote_B_def dict_eval)
  have c3: "DAList.lookup r ''pe_ratio'' = Some (PNum 30.2)"
    using look by (simp add: scenario_quote_B_def scenario_infos_def offered_def dict_eval)
  have c4: "DAList.lookup r ''market_cap'' = Some (PNum 3000000000000)"
    using look by (simp add: scenario_quote_B_def scenario_infos_def offered_def dict_eval)
  have g1: "no_quote (get_quote scenario_A ''AAPL'')"
    using h1 by simp
  have g4: "map (\<lambda>p'. get_company_info p' ''AAPL'') [scenario_A, scenario_B, scenario_C]
       = map Inr scenario_infos"
    using h4 by simp
  from c1 c2 c3 c4 have "\<exists>r. get_live_stock_price example_runtime \<lparr>providers = [scenario_A, scenario_B, scenario_C]\<rparr>
              ''2026-01-02 10:00:00'' ''AAPL'' =
            ([GetQuote 0, GetQuote 1, GetCompanyInfo 0, GetCompanyInfo 1, GetCompanyInfo 2],
             Inr (Some r))
          \<and> DAList.lookup r ''price'' = Some (PNum 150)
          \<and> DAList.lookup r ''pe_ratio'' = Some (PNum 30.2)
          \<and> DAList.lookup r ''market_cap'' = Some (PNum 3000000000000)"
    by blast
  with g1 h2 h3 g4 show ?thesis by blast
qed

text \<open>
  Claim C9. A key that the adopted quote holds with the value \<^verbatim>\<open>None\<close> still holds
  \<^verbatim>\<open>None\<close> in the returned record, whatever the providers offer for it as company
  information: the merge tests whether the key is present, not whether its value is null.
\<close>

theorem null_field_of_quote_kept:
  assumes earlier: "\<forall>p' \<in> set pre. no_quote (get_quote p' t)"
    and quote: "get_quote p t = Inr (Some q)"
    and null: "DAList.lookup q k = Some PNone"
    and key: "k \<noteq> ''ticker''" "k \<noteq> ''timestamp''"
    and run: "snd (get_live_stock_price rt \<lparr>providers = pre @ p # post\<rparr> now t) = Inr (Some r)"
  shows "DAList.lookup r k = Some PNone"
proof -
  let ?ps = "pre @ p # post"
  have nonempty: "truthy_dict q"
    using null by (auto simp: truthy_dict_def DAList.lookup.rep_eq)
  have loop: "quote_loop 0 ?ps t DAList.empty = (map GetQuote [0 ..< Suc (length pre)], Inr q)"
    using quote_loop_first [OF earlier quote nonempty, of 0 post DAList.empty]
    by (simp add: dict_update_empty)
  obtain tr2 out2 where info: "info_loop 0 ?ps t q = (tr2, out2)"
    by (cases "info_loop 0 ?ps t q")
  from run loop info nonempty obtain r' where out2: "out2 = Inr r'" and
    r: "r = DAList.update ''timestamp'' (PStr now)
              (DAList.update ''ticker'' (PStr (upper rt t)) r')"
    by (auto simp: get_live_stock_price_def simp del: upt_Suc split: sum.splits)
  from info_loop_keeps [OF info] out2 null have "DAList.lookup r' k = Some PNone"
    by simp
  with key show ?thesis
    by (simp add: r DAList.lookup_update)
qed

text \<open>
  An instance: the Finnhub response has no day's high, so the quote holds
  \<^verbatim>\<open>'high': None\<close>; the next provider offers a high of 12 and a name. The name is
  merged in, the high stays \<^verbatim>\<open>None\<close>.
\<close>

theorem null_field_of_quote_kept_witness:
  "get_quote (FinnhubProvider example_runtime no_high_finnhub) ''ACME'' = Inr (Some no_high_quote)
   \<and> DAList.lookup no_high_quote ''high'' = Some PNone
   \<and> get_company_info high_supplier ''ACME''
       = Inr (Some (dict_of [(''high'', PNum 12), (''name'', PStr ''Acme'')]))
   \<and> snd (get_live_stock_price example_runtime \<lparr>providers = [FinnhubProvider example_runtime no_high_finnhub, high_supplier]\<rparr>
          ''2026-01-02 10:00:00'' ''ACME'') = Inr (Some no_high_result)
   \<and> DAList.lookup no_high_result ''high'' = Some PNone
   \<and> DAList.lookup no_high_result ''name'' = Some (PStr ''Acme'')"
proof -
  have h1: "\<forall>p' \<in> set []. no_quote (get_quote p' ''ACME'')"
    by simp
  have h2: "get_quote (FinnhubProvider example_runtime no_high_finnhub) ''ACME'' = Inr (Some no_high_quote)"
    by (simp add: no_high_finnhub_def no_high_quote_def provider_eval dict_eval)
  have h3: "DAList.lookup no_high_quote ''high'' = Some PNone"
    by (simp add: no_high_quote_def dict_eval)
  have h4: "''high'' \<noteq> ''ticker''" "''high'' \<noteq> ''timestamp''"
    by simp_all
  have h5: "snd (get_live_stock_price example_runtime
          \<lparr>providers = [] @ FinnhubProvider example_runtime no_high_finnhub # [high_supplier]\<rparr>
          ''2026-01-02 10:00:00'' ''ACME'') = Inr (Some no_high_result)"
    by (simp add: no_high_finnhub_def no_high_result_def high_supplier_def stub_provider_def
          get_live_stock_price_def provider_eval dict_eval upper_eval)
  have c: "DAList.lookup no_high_result ''high'' = Some PNone"
    by (rule null_field_of_quote_kept [OF h1 h2 h3 h4 h5])
  have s: "get_company_info high_supplier ''ACME''
       = Inr (Some (dict_of [(''high'', PNum 12), (''name'', PStr ''Acme'')]))"
    by (simp add: high_supplier_def stub_provider_def)
  have n: "DAList.lookup no_high_result ''name'' = Some (PStr ''Acme'')"
    by (simp add: no_high_result_def dict_eval)
  from h2 h3 s h5 c n show ?thesis by simp
qed

section \<open>Not found\<close>

text \<open>
  Claim C3. When every provider returns \<^verbatim>\<open>None\<close> (or an empty dictionary) as its quote,
  the run asks each provider once for a quote, none for company information, and returns
  \<^verbatim>\<open>None\<close>: an ordinary value, neither an exception nor a record.
\<close>

theorem not_found_when_no_quote:
  assumes "\<forall>p \<in> set ps. no_quote (get_quote p t)"
  shows "get_live_stock_price rt \<lparr>providers = ps\<rparr> now t
           = (map GetQuote [0 ..< length ps], Inr None)"
proof (cases ps)
  case Nil
  then show ?thesis by (simp add: get_live_stock_price_def)
next
  case (Cons p ps')
  have "quote_loop 0 ps t DAList.empty = (map GetQuote [0 ..< length ps], Inr DAList.empty)"
    using quote_loop_none [OF assms, of 0 DAList.empty] by simp
  then show ?thesis
    using Cons by (simp add: get_live_stock_price_def truthy_dict_def DAList.empty.rep_eq
          del: upt_Suc)
qed

text \<open>The scenario of the specification: two providers, both without a quote.\<close>

theorem not_found_when_no_quote_witness:
  "no_quote (get_quote (stub_provider None None) ''ZZZZ'')
   \<and> get_live_stock_price example_runtime \<lparr>providers = [stub_provider None None, stub_provider None None]\<rparr>
        ''2026-01-02 10:00:00'' ''ZZZZ'' = ([GetQuote 0, GetQuote 1], Inr None)"
proof -
  have g: "no_quote (get_quote (stub_provider None None) ''ZZZZ'')"
    by (simp add: stub_provider_def no_quote_def)
  then have h: "\<forall>p \<in> set [stub_provider None None, stub_provider None None].
       no_quote (get_quote p ''ZZZZ'')"
    by simp
  from not_found_when_no_quote
         [OF h, where rt = example_runtime and now = "''2026-01-02 10:00:00''"] g
  show ?thesis by simp
qed

text \<open>
  Claim C10. With an empty provider list \<^verbatim>\<open>get_live_stock_price\<close> returns \<^verbatim>\<open>None\<close>
  for every ticker, without raising and without a single provider call.
\<close>

theorem no_providers_not_found:
  "get_live_stock_price rt (self\<lparr>providers := []\<rparr>) now ticker = ([], Inr None)"
  by (simp add: get_live_stock_price_def)

section \<open>Failures of providers and of construction\<close>

text \<open>
  Claim C4, as amended. For every list of providers of the two classes of the repository,
  over arbitrary clients, and so for the provider list of every fetcher that the constructor
  builds, \<^verbatim>\<open>get_live_stock_price\<close> never raises. A client call that raises is caught by
  \<^verbatim>\<open>safe_api_call\<close> inside the provider method, which then returns "no data"
  (\<^verbatim>\<open>None\<close>, or an empty dictionary from \<^verbatim>\<open>YFinanceProvider.get_company_info\<close>),
  so that the loops go on to the next provider.
\<close>

theorem provider_failures_isolated:
  "\<not> isl (snd (get_live_stock_price rt
       \<lparr>providers = map (case_sum (FinnhubProvider rt) (YFinanceProvider rt)) clients\<rparr> now t))
   \<and> (StockDataFetcher_init rt env finnhub_key = Inr self \<longrightarrow>
        \<not> isl (snd (get_live_stock_price rt self now t)))
   \<and> (isl (fh_quote client t) \<longrightarrow> get_quote (FinnhubProvider rt client) t = Inr None)
   \<and> (isl (fh_company_profile2 client t) \<longrightarrow> isl (fh_company_basic_financials client t) \<longrightarrow>
        get_company_info (FinnhubProvider rt client) t = Inr None)
   \<and> (isl (yf_info yf t) \<longrightarrow>
        get_quote (YFinanceProvider rt yf) t = Inr None
        \<and> get_company_info (YFinanceProvider rt yf) t = Inr (Some DAList.empty))"
proof (intro conjI impI)
  show "\<not> isl (snd (get_live_stock_price rt
       \<lparr>providers = map (case_sum (FinnhubProvider rt) (YFinanceProvider rt)) clients\<rparr> now t))"
    by (rule get_live_stock_price_no_raise) (simp add: repo_provider_no_raise)
next
  assume "StockDataFetcher_init rt env finnhub_key = Inr self"
  from constructed_providers [OF this] obtain cs where
    "providers self = map (case_sum (FinnhubProvider rt) (YFinanceProvider rt)) cs"
    by blast
  then have "self = \<lparr>providers = map (case_sum (FinnhubProvider rt) (YFinanceProvider rt)) cs\<rparr>"
    by (cases self) simp
  then show "\<not> isl (snd (get_live_stock_price rt self now t))"
    by (simp add: get_live_stock_price_no_raise repo_provider_no_raise)
next
  assume "isl (fh_quote client t)"
  then show "get_quote (FinnhubProvider rt client) t = Inr None"
    by (auto simp: FinnhubProvider_def FinnhubProvider_get_quote_def Finnhub_inner_get_quote_def
          safe_api_call_def isl_def)
next
  assume "isl (fh_company_profile2 client t)" "isl (fh_company_basic_financials client t)"
  then show "get_company_info (FinnhubProvider rt client) t = Inr None"
    by (auto simp: FinnhubProvider_def FinnhubProvider_get_company_info_def
          Finnhub_inner_get_profile_def Finnhub_inner_get_metrics_def safe_api_call_def isl_def
          dict_update_def dict_items_def truthy_dict_def DAList.empty.rep_eq)
next
  assume "isl (yf_info yf t)"
  then show "get_quote (YFinanceProvider rt yf) t = Inr None"
    by (auto simp: YFinanceProvider_def YFinanceProvider_get_quote_def
          YFinance_inner_get_quote_def safe_api_call_def isl_def)
next
  assume "isl (yf_info yf t)"
  then show "get_company_info (YFinanceProvider rt yf) t = Inr (Some DAList.empty)"
    by (auto simp: YFinanceProvider_def YFinanceProvider_get_company_info_def
          YFinance_inner_get_info_def safe_api_call_def isl_def)
qed

text \<open>An instance: the constructor builds both providers, every call of the Finnhub client
  raises, and the run still returns the record made from the Yahoo Finance data.\<close>

theorem provider_failures_isolated_witness:
  "isl (fh_quote failing_finnhub ''AAPL'')
   \<and> isl (fh_company_profile2 failing_finnhub ''AAPL'')
   \<and> isl (fh_company_basic_financials failing_finnhub ''AAPL'')
   \<and> isl (yf_info failing_yfinance ''AAPL'')
   \<and> StockDataFetcher_init example_runtime failing_finnhub_env (Some ''key'')
       = Inr \<lparr>providers = [FinnhubProvider example_runtime failing_finnhub, YFinanceProvider example_runtime yfinance_B]\<rparr>
   \<and> get_quote (FinnhubProvider example_runtime failing_finnhub) ''AAPL'' = Inr None
   \<and> get_company_info (FinnhubProvider example_runtime failing_finnhub) ''AAPL'' = Inr None
   \<and> get_quote (YFinanceProvider example_runtime failing_yfinance) ''AAPL'' = Inr None
   \<and> get_company_info (YFinanceProvider example_runtime failing_yfinance) ''AAPL'' = Inr (Some DAList.empty)
   \<and> \<not> isl (snd (get_live_stock_price example_runtime
        \<lparr>providers = [FinnhubProvider example_runtime failing_finnhub, YFinanceProvider example_runtime yfinance_B]\<rparr>
        ''2026-01-02 10:00:00'' ''AAPL''))
   \<and> get_live_stock_price example_runtime
        \<lparr>providers = [FinnhubProvider example_runtime failing_finnhub, YFinanceProvider example_runtime yfinance_B]\<rparr>
        ''2026-01-02 10:00:00'' ''AAPL''
       = ([GetQuote 0, GetQuote 1, GetCompanyInfo 0, GetCompanyInfo 1], Inr (Some aapl_result))
   \<and> \<not> isl (snd (get_live_stock_price example_runtime
        \<lparr>providers = map (case_sum (FinnhubProvider example_runtime) (YFinanceProvider example_runtime))
                        [Inl failing_finnhub, Inr failing_yfinance]\<rparr>
        ''2026-01-02 10:00:00'' ''AAPL''))"
proof -
  have h: "isl (fh_quote failing_finnhub ''AAPL'')"
    "isl (fh_company_profile2 failing_finnhub ''AAPL'')"
    "isl (fh_company_basic_financials failing_finnhub ''AAPL'')"
    "isl (yf_info failing_yfinance ''AAPL'')"
    by (simp_all add: failing_finnhub_def failing_yfinance_def const_finnhub_def const_yfinance_def)
  have i: "StockDataFetcher_init example_runtime failing_finnhub_env (Some ''key'')
       = Inr \<lparr>providers = [FinnhubProvider example_runtime failing_finnhub, YFinanceProvider example_runtime yfinance_B]\<rparr>"
    by (simp add: failing_finnhub_env_def StockDataFetcher_init_def FinnhubProvider_init_def
          YFinanceProvider_init_def validate_api_key_def)
  have r: "get_live_stock_price example_runtime
        \<lparr>providers = [FinnhubProvider example_runtime failing_finnhub, YFinanceProvider example_runtime yfinance_B]\<rparr>
        ''2026-01-02 10:00:00'' ''AAPL''
       = ([GetQuote 0, GetQuote 1, GetCompanyInfo 0, GetCompanyInfo 1], Inr (Some aapl_result))"
    by (simp add: failing_finnhub_def yfinance_B_def aapl_result_def get_live_stock_price_def
          provider_eval dict_eval upper_eval)
  from provider_failures_isolated
         [where rt = example_runtime
            and clients = "[Inl failing_finnhub, Inr failing_yfinance]"
            and now = "''2026-01-02 10:00:00''" and t = "''AAPL''"
            and env = failing_finnhub_env and finnhub_key = "Some ''key''"
            and self = "\<lparr>providers = [FinnhubProvider example_runtime failing_finnhub,
                                     YFinanceProvider example_runtime yfinance_B]\<rparr>"
            and client = failing_finnhub and yf = failing_yfinance] h i r
  show ?thesis by simp
qed

text \<open>
  Claim C4 as worded covers every provider list. The loops of
  \<^verbatim>\<open>get_live_stock_price\<close> have no handler of their own: when a provider method itself
  raises, the exception leaves the call and the next provider is never asked.
\<close>

theorem raising_provider_aborts_counterexample:
  "get_live_stock_price example_runtime \<lparr>providers = [raising_provider, priced_provider]\<rparr>
      ''2026-01-02 10:00:00'' ''ACME'' = ([GetQuote 0], Inl (ApiError ''down''))"
  by (simp add: raising_provider_def get_live_stock_price_def)

text \<open>
  Claim C5, as amended. The constructor never fails. When neither provider can be built,
  it yields a fetcher with an empty provider list, and every later call of
  \<^verbatim>\<open>get_live_stock_price\<close> on it returns \<^verbatim>\<open>None\<close> without asking any provider.
\<close>

theorem construction_absorbs_missing_providers:
  "\<not> isl (StockDataFetcher_init rt env finnhub_key)
   \<and> (isl (FinnhubProvider_init rt env finnhub_key) \<longrightarrow> isl (YFinanceProvider_init rt env) \<longrightarrow>
        StockDataFetcher_init rt env finnhub_key = Inr \<lparr>providers = []\<rparr>
        \<and> get_live_stock_price rt \<lparr>providers = []\<rparr> now ticker = ([], Inr None))"
  by (auto simp: StockDataFetcher_init_def Let_def get_live_stock_price_def isl_def
        split: sum.splits)

text \<open>An instance: a key is given, but neither client library can be loaded.\<close>

theorem construction_absorbs_missing_providers_witness:
  "isl (FinnhubProvider_init example_runtime broken_env (Some ''key''))
   \<and> isl (YFinanceProvider_init example_runtime broken_env)
   \<and> \<not> isl (StockDataFetcher_init example_runtime broken_env (Some ''key''))
   \<and> StockDataFetcher_init example_runtime broken_env (Some ''key'') = Inr \<lparr>providers = []\<rparr>
   \<and> get_live_stock_price example_runtime \<lparr>providers = []\<rparr> ''2026-01-02 10:00:00'' ''AAPL'' = ([], Inr None)"
proof -
  have h1: "isl (FinnhubProvider_init example_runtime broken_env (Some ''key''))"
    by (simp add: broken_env_def FinnhubProvider_init_def validate_api_key_def)
  have h2: "isl (YFinanceProvider_init example_runtime broken_env)"
    by (simp add: broken_env_def YFinanceProvider_init_def)
  from construction_absorbs_missing_providers
         [where rt = example_runtime and env = broken_env and finnhub_key = "Some ''key''"
            and now = "''2026-01-02 10:00:00''" and ticker = "''AAPL''"] h1 h2
  show ?thesis by blast
qed

text \<open>
  Claim C5 as worded lets construction fail when no provider can be built. With no key and
  no client library, both provider constructors raise, yet the fetcher is built, with an
  empty provider list.
\<close>

theorem construction_never_fails_counterexample:
  "isl (FinnhubProvider_init example_runtime broken_env None)
   \<and> isl (YFinanceProvider_init example_runtime broken_env)
   \<and> StockDataFetcher_init example_runtime broken_env None = Inr \<lparr>providers = []\<rparr>"
  by (simp add: broken_env_def StockDataFetcher_init_def FinnhubProvider_init_def
        YFinanceProvider_init_def validate_api_key_def)

section \<open>Ticker and timestamp\<close>

lemma lowercase_range:
  assumes "97 \<le> (of_char c :: nat)" "(of_char c :: nat) \<le> 122"
  shows "c \<in> set lowercase_letters"
proof -
  have "(of_char c :: nat) \<in> of_char ` set lowercase_letters"
  proof (cases "(of_char c :: nat) \<le> 109")
    case True
    with assms have "(of_char c :: nat) \<in> {97, 98, 99, 100, 101, 102, 103, 104, 105, 106, 107, 108, 109}"
      by simp arith
    then show ?thesis
      unfolding lowercase_letters_def by auto
  next
    case False
    with assms have "(of_char c :: nat) \<in> {110, 111, 112, 113, 114, 115, 116, 117, 118, 119, 120, 121, 122}"
      by simp arith
    then show ?thesis
      unfolding lowercase_letters_def by auto
  qed
  then show ?thesis
    by (simp add: inj_image_mem_iff [OF inj_of_char])
qed

lemma lowercase_code:
  "c \<in> set lowercase_letters \<Longrightarrow>
   of_char (ascii_upper c) = (of_char c :: nat) - 32
   \<and> 97 \<le> (of_char c :: nat) \<and> (of_char c :: nat) \<le> 122"
  by (auto simp: lowercase_letters_def uppercase_letters_def ascii_upper_def)

lemma ascii_upper_other: "c \<notin> set lowercase_letters \<Longrightarrow> ascii_upper c = c"
proof -
  assume "c \<notin> set lowercase_letters"
  then have "map_of (zip lowercase_letters uppercase_letters) c = None"
    by (simp add: map_of_eq_None_iff lowercase_letters_def uppercase_letters_def)
  then show ?thesis
    by (simp add: ascii_upper_def)
qed

lemma ascii_upper_code:
  "of_char (ascii_upper c) =
     (if 97 \<le> (of_char c :: nat) \<and> (of_char c :: nat) \<le> 122
      then of_char c - 32 else (of_char c :: nat))"
proof (cases "c \<in> set lowercase_letters")
  case True
  then show ?thesis
    using lowercase_code [OF True] by simp
next
  case False
  then have "\<not> (97 \<le> (of_char c :: nat) \<and> (of_char c :: nat) \<le> 122)"
    using lowercase_range by blast
  moreover have "ascii_upper c = c"
    using False by (rule ascii_upper_other)
  ultimately show ?thesis
    by auto
qed

lemma ascii_upper_not_lower: "ascii_upper c \<notin> set lowercase_letters"
proof (cases "c \<in> set lowercase_letters")
  case True
  then show ?thesis
    by (auto simp: lowercase_letters_def uppercase_letters_def ascii_upper_def)
next
  case False
  then show ?thesis
    by (simp add: ascii_upper_other)
qed

lemma upper_from_ascii:
  "\<forall>c \<in> set s. is_ascii c \<Longrightarrow> upper_from tbl [] s = map ascii_upper s"
  by (induction s) auto

lemma upper_ascii: "\<forall>c \<in> set s. is_ascii c \<Longrightarrow> upper rt s = map ascii_upper s"
  by (simp add: upper_def upper_from_ascii)

lemma upper_aapl: "upper rt ''aapl'' = ''AAPL''" "upper rt ''AAPL'' = ''AAPL''"
  by (simp_all add: upper_def is_ascii_def ascii_upper_def lowercase_letters_def
        uppercase_letters_def)

lemma quote_loop_same_answers:
  "\<forall>p \<in> set ps. get_quote p t = get_quote p t' \<Longrightarrow>
   quote_loop n ps t r = quote_loop n ps t' r"
  by (induction ps arbitrary: n) (auto split: sum.splits option.splits)

lemma info_loop_same_answers:
  "\<forall>p \<in> set ps. get_company_info p t = get_company_info p t' \<Longrightarrow>
   info_loop n ps t r = info_loop n ps t' r"
  by (induction ps arbitrary: n r) (auto split: sum.splits option.splits)

lemma result_ticker_timestamp:
  assumes "snd (get_live_stock_price rt self now ticker) = Inr (Some r)"
  shows "DAList.lookup r ''ticker'' = Some (PStr (upper rt ticker))
    \<and> DAList.lookup r ''timestamp'' = Some (PStr now)"
proof -
  from assms obtain r' where r: "r = DAList.update ''timestamp'' (PStr now)
                               (DAList.update ''ticker'' (PStr (upper rt ticker)) r')"
    by (auto simp: get_live_stock_price_def split: if_splits prod.splits sum.splits)
  show ?thesis
    by (simp add: r DAList.lookup_update)
qed

text \<open>
  Claim C6, as amended. Every record returned by \<^verbatim>\<open>get_live_stock_price\<close> carries the
  clock reading under \<^verbatim>\<open>timestamp\<close> and the upper-cased ticker under \<^verbatim>\<open>ticker\<close>: for
  an ASCII ticker this is a text of the same length without any letter from a to z, in
  which every such letter of the ticker has become the character 32 codes below it and
  every other character has stayed; a record returned for \<^verbatim>\<open>aapl\<close> or for \<^verbatim>\<open>AAPL\<close> has
  the ticker \<^verbatim>\<open>AAPL\<close>. The two calls go through the same provider list, but every
  provider is asked with the ticker as it was typed: when the providers answer two tickers
  alike and the tickers have the same upper case, the two runs make the same calls and
  return the same result.
\<close>

theorem ticker_uppercase_and_timestamp:
  "(snd (get_live_stock_price rt self now ticker) = Inr (Some r) \<longrightarrow>
      DAList.lookup r ''timestamp'' = Some (PStr now)
      \<and> DAList.lookup r ''ticker'' = Some (PStr (upper rt ticker))
      \<and> ((\<forall>c \<in> set ticker. is_ascii c) \<longrightarrow>
           (\<exists>u. DAList.lookup r ''ticker'' = Some (PStr u)
              \<and> length u = length ticker
              \<and> (\<forall>c \<in> set u. c \<notin> set lowercase_letters)
              \<and> (\<forall>i < length ticker.
                   of_char (u ! i) =
                     (if 97 \<le> (of_char (ticker ! i) :: nat) \<and> (of_char (ticker ! i) :: nat) \<le> 122
                      then of_char (ticker ! i) - 32 else (of_char (ticker ! i) :: nat))))))
   \<and> (snd (get_live_stock_price rt self now ''aapl'') = Inr (Some r1) \<longrightarrow>
        DAList.lookup r1 ''ticker'' = Some (PStr ''AAPL''))
   \<and> (snd (get_live_stock_price rt self now ''AAPL'') = Inr (Some r2) \<longrightarrow>
        DAList.lookup r2 ''ticker'' = Some (PStr ''AAPL''))
   \<and> ((\<forall>p \<in> set (providers self).
          get_quote p ticker = get_quote p ticker'
          \<and> get_company_info p ticker = get_company_info p ticker') \<longrightarrow>
        upper rt ticker = upper rt ticker' \<longrightarrow>
        get_live_stock_price rt self now ticker = get_live_stock_price rt self now ticker')"
proof (intro conjI impI)
  assume run: "snd (get_live_stock_price rt self now ticker) = Inr (Some r)"
  from result_ticker_timestamp [OF run]
  show "DAList.lookup r ''timestamp'' = Some (PStr now)"
    and tk: "DAList.lookup r ''ticker'' = Some (PStr (upper rt ticker))"
    by simp_all
  assume ascii: "\<forall>c \<in> set ticker. is_ascii c"
  have u: "upper rt ticker = map ascii_upper ticker"
    using ascii by (rule upper_ascii)
  have "length (upper rt ticker) = length ticker"
    by (simp add: u)
  moreover have "\<forall>c \<in> set (upper rt ticker). c \<notin> set lowercase_letters"
    by (auto simp: u ascii_upper_not_lower)
  moreover have "\<forall>i < length ticker.
      of_char (upper rt ticker ! i) =
        (if 97 \<le> (of_char (ticker ! i) :: nat) \<and> (of_char (ticker ! i) :: nat) \<le> 122
         then of_char (ticker ! i) - 32 else (of_char (ticker ! i) :: nat))"
    by (simp add: u ascii_upper_code)
  ultimately show "\<exists>u. DAList.lookup r ''ticker'' = Some (PStr u)
              \<and> length u = length ticker
              \<and> (\<forall>c \<in> set u. c \<notin> set lowercase_letters)
              \<and> (\<forall>i < length ticker.
                   of_char (u ! i) =
                     (if 97 \<le> (of_char (ticker ! i) :: nat) \<and> (of_char (ticker ! i) :: nat) \<le> 122
                      then of_char (ticker ! i) - 32 else (of_char (ticker ! i) :: nat)))"
    using tk by blast
next
  assume "snd (get_live_stock_price rt self now ''aapl'') = Inr (Some r1)"
  from result_ticker_timestamp [OF this]
  show "DAList.lookup r1 ''ticker'' = Some (PStr ''AAPL'')"
    by (simp add: upper_aapl)
next
  assume "snd (get_live_stock_price rt self now ''AAPL'') = Inr (Some r2)"
  from result_ticker_timestamp [OF this]
  show "DAList.lookup r2 ''ticker'' = Some (PStr ''AAPL'')"
    by (simp add: upper_aapl)
next
  assume same: "\<forall>p \<in> set (providers self).
          get_quote p ticker = get_quote p ticker'
          \<and> get_company_info p ticker = get_company_info p ticker'"
    and up: "upper rt ticker = upper rt ticker'"
  have q: "quote_loop 0 (providers self) ticker r0 = quote_loop 0 (providers self) ticker' r0" for r0
    using same by (simp add: quote_loop_same_answers)
  have i: "info_loop 0 (providers self) ticker r0 = info_loop 0 (providers self) ticker' r0" for r0
    using same by (simp add: info_loop_same_answers)
  show "get_live_stock_price rt self now ticker = get_live_stock_price rt self now ticker'"
    unfolding get_live_stock_price_def q i up by (rule refl)
qed

text \<open>
  An instance: a fetcher whose provider answers every spelling alike, asked for
  \<^verbatim>\<open>aapl\<close> and for \<^verbatim>\<open>AAPL\<close>.
\<close>

theorem ticker_uppercase_and_timestamp_witness:
  "snd (get_live_stock_price example_runtime \<lparr>providers = [scenario_B]\<rparr>
          ''2026-01-02 10:00:00'' ''aapl'') = Inr (Some aapl_result)
   \<and> snd (get_live_stock_price example_runtime \<lparr>providers = [scenario_B]\<rparr>
          ''2026-01-02 10:00:00'' ''AAPL'') = Inr (Some aapl_result)
   \<and> DAList.lookup aapl_result ''ticker'' = Some (PStr ''AAPL'')
   \<and> DAList.lookup aapl_result ''timestamp'' = Some (PStr ''2026-01-02 10:00:00'')
   \<and> get_quote scenario_B ''aapl'' = get_quote scenario_B ''AAPL''
   \<and> get_company_info scenario_B ''aapl'' = get_company_info scenario_B ''AAPL''
   \<and> get_live_stock_price example_runtime \<lparr>providers = [scenario_B]\<rparr>
          ''2026-01-02 10:00:00'' ''aapl''
     = get_live_stock_price example_runtime \<lparr>providers = [scenario_B]\<rparr>
          ''2026-01-02 10:00:00'' ''AAPL''"
proof -
  have h1: "snd (get_live_stock_price example_runtime \<lparr>providers = [scenario_B]\<rparr>
          ''2026-01-02 10:00:00'' ''aapl'') = Inr (Some aapl_result)"
    by (simp add: scenario_B_def aapl_result_def get_live_stock_price_def provider_eval dict_eval
          upper_aapl)
  have h2: "snd (get_live_stock_price example_runtime \<lparr>providers = [scenario_B]\<rparr>
          ''2026-01-02 10:00:00'' ''AAPL'') = Inr (Some aapl_result)"
    by (simp add: scenario_B_def aapl_result_def get_live_stock_price_def provider_eval dict_eval
          upper_aapl)
  have h3: "get_quote scenario_B ''aapl'' = get_quote scenario_B ''AAPL''"
    "get_company_info scenario_B ''aapl'' = get_company_info scenario_B ''AAPL''"
    by (simp_all add: scenario_B_def provider_eval dict_eval)
  have h4: "\<forall>p \<in> set (providers \<lparr>providers = [scenario_B]\<rparr>).
          get_quote p ''aapl'' = get_quote p ''AAPL''
          \<and> get_company_info p ''aapl'' = get_company_info p ''AAPL''"
    using h3 by simp
  have h5: "upper example_runtime ''aapl'' = upper example_runtime ''AAPL''"
    by (simp add: upper_aapl)
  note inst = ticker_uppercase_and_timestamp
         [where rt = example_runtime and self = "\<lparr>providers = [scenario_B]\<rparr>"
            and now = "''2026-01-02 10:00:00''" and ticker = "''aapl''" and ticker' = "''AAPL''"
            and r = aapl_result and ?r1.0 = aapl_result and ?r2.0 = aapl_result]
  from inst h1 have c1: "DAList.lookup aapl_result ''ticker'' = Some (PStr ''AAPL'')"
    "DAList.lookup aapl_result ''timestamp'' = Some (PStr ''2026-01-02 10:00:00'')"
    by blast+
  from inst h4 h5 have c2: "get_live_stock_price example_runtime \<lparr>providers = [scenario_B]\<rparr>
          ''2026-01-02 10:00:00'' ''aapl''
     = get_live_stock_price example_runtime \<lparr>providers = [scenario_B]\<rparr>
          ''2026-01-02 10:00:00'' ''AAPL''"
    by blast
  from h1 h2 h3 c1 c2 show ?thesis
    by blast
qed

text \<open>
  Claim C6 as worded has both calls return a record. The ticker reaches the providers as
  it was typed; with a Finnhub service that knows \<^verbatim>\<open>AAPL\<close> in this spelling only, the
  call for \<^verbatim>\<open>aapl\<close> asks for a quote and returns "not found", and the call for
  \<^verbatim>\<open>AAPL\<close> goes on to the company information and returns a record.
\<close>

theorem case_sensitive_provider_counterexample:
  "get_live_stock_price example_runtime
       \<lparr>providers = [FinnhubProvider example_runtime case_sensitive_finnhub]\<rparr>
       ''2026-01-02 10:00:00'' ''aapl'' = ([GetQuote 0], Inr None)
   \<and> get_live_stock_price example_runtime
       \<lparr>providers = [FinnhubProvider example_runtime case_sensitive_finnhub]\<rparr>
       ''2026-01-02 10:00:00'' ''AAPL''
     = ([GetQuote 0, GetCompanyInfo 0], Inr (Some finnhub_aapl_result))
   \<and> DAList.lookup finnhub_aapl_result ''ticker'' = Some (PStr ''AAPL'')"
  by (simp add: case_sensitive_finnhub_def finnhub_aapl_result_def get_live_stock_price_def
        provider_eval dict_eval upper_aapl)

section \<open>Invariants of a quote\<close>

text \<open>The Finnhub path does keep the price strictly positive.\<close>

lemma Finnhub_price_positive:
  "get_quote (FinnhubProvider rt client) t = Inr (Some q) \<Longrightarrow>
   \<exists>c. DAList.lookup q ''price'' = Some (PNum c) \<and> num_gt_zero rt c"
  by (drule Finnhub_quote_shape) (auto simp: dict_eval)

text \<open>
  The Yahoo Finance path tests the truth value of the price only. Whatever the runtime:
  a payload whose current price and previous close are non-zero numbers that can be
  subtracted and divided gives a quote with that price, positive or not.
\<close>

lemma YFinance_price_sign_unchecked:
  assumes "\<not> num_is_zero rt c" "\<not> num_is_zero rt p"
    and "num_sub rt c p = Inr d" "num_truediv rt d p = Inr r"
    and "yf_info yf t = Inr (Some (dict_of [(''currentPrice'', PNum c), (''previousClose'', PNum p)]))"
  shows "get_quote (YFinanceProvider rt yf) t =
     Inr (Some (dict_of
       [(''price'', PNum c), (''previous_close'', PNum p), (''change'', PNum d),
        (''change_percent'', PNum (num_mul_int rt r 100)), (''high'', PNone), (''low'', PNone),
        (''open'', PNone), (''volume'', PNone)]))"
  using assms
  by (simp add: YFinanceProvider_def YFinanceProvider_get_quote_def YFinance_inner_get_quote_def
        dict_eval)

text \<open>
  Claim C7 asks for a strictly positive price in every quote. \<^verbatim>\<open>FinnhubProvider\<close>
  tests \<^verbatim>\<open>quote['c'] > 0\<close>; \<^verbatim>\<open>YFinanceProvider\<close> tests the truth value of the price
  only, and a negative number is true. On a payload with the current price -5 and the
  previous close 10 it returns a quote with that price, and so does the fetcher.
\<close>

theorem YFinance_negative_price:
  "get_quote (YFinanceProvider example_runtime negative_price_yfinance) ''ACME'' =
     Inr (Some (dict_of
       [(''price'', PNum (- 5)), (''previous_close'', PNum 10), (''change'', PNum (- 15)),
        (''change_percent'', PNum (- 150)), (''high'', PNone), (''low'', PNone),
        (''open'', PNone), (''volume'', PNone)]))
   \<and> snd (get_live_stock_price example_runtime
          \<lparr>providers = [YFinanceProvider example_runtime negative_price_yfinance]\<rparr>
          ''2026-01-02 10:00:00'' ''ACME'') =
     Inr (Some (dict_of
       [(''price'', PNum (- 5)), (''previous_close'', PNum 10), (''change'', PNum (- 15)),
        (''change_percent'', PNum (- 150)), (''high'', PNone), (''low'', PNone),
        (''open'', PNone), (''volume'', PNone), (''ticker'', PStr ''ACME''),
        (''timestamp'', PStr ''2026-01-02 10:00:00'')]))"
  by (simp add: negative_price_yfinance_def get_live_stock_price_def provider_eval dict_eval
        upper_eval)

text \<open>
  Claim C8, as amended. In every quote of \<^verbatim>\<open>YFinanceProvider.get_quote\<close> the previous
  close is a non-zero number, the change is what Python's subtraction gives for the price
  and the previous close, and the percentage is what Python's division of the change by the
  previous close gives, times 100: the results of the runtime's arithmetic, which for
  floats are the exact values up to rounding. A quote of \<^verbatim>\<open>FinnhubProvider.get_quote\<close>
  carries the fields \<^verbatim>\<open>c\<close>, \<^verbatim>\<open>pc\<close>, \<^verbatim>\<open>d\<close> and \<^verbatim>\<open>dp\<close> of the response as they came;
  nothing is computed from them.
\<close>

theorem change_fields_by_provider:
  "(get_quote (YFinanceProvider rt yf) t = Inr (Some q) \<longrightarrow>
      (\<exists>c p d r. \<not> num_is_zero rt p
         \<and> DAList.lookup q ''price'' = Some (PNum c)
         \<and> DAList.lookup q ''previous_close'' = Some (PNum p)
         \<and> num_sub rt c p = Inr d
         \<and> DAList.lookup q ''change'' = Some (PNum d)
         \<and> num_truediv rt d p = Inr r
         \<and> DAList.lookup q ''change_percent'' = Some (PNum (num_mul_int rt r 100))))
   \<and> (get_quote (FinnhubProvider rt client) t = Inr (Some q') \<longrightarrow>
      (\<exists>resp. fh_quote client t = Inr (Some resp)
         \<and> DAList.lookup q' ''price'' = DAList.lookup resp ''c''
         \<and> DAList.lookup q' ''previous_close'' = DAList.lookup resp ''pc''
         \<and> DAList.lookup q' ''change'' = DAList.lookup resp ''d''
         \<and> DAList.lookup q' ''change_percent'' = DAList.lookup resp ''dp''))"
proof (intro conjI impI)
  assume "get_quote (YFinanceProvider rt yf) t = Inr (Some q)"
  from YFinance_quote_shape [OF this] obtain info c p d r where
    nz: "\<not> num_is_zero rt p" and sub: "num_sub rt c p = Inr d" and
    dv: "num_truediv rt d p = Inr r" and
    q: "q = dict_of
         [(''price'', PNum c),
          (''previous_close'', PNum p),
          (''change'', PNum d),
          (''change_percent'', PNum (num_mul_int rt r 100)),
          (''high'', dict_get info ''dayHigh''),
          (''low'', dict_get info ''dayLow''),
          (''open'', dict_get info ''open''),
          (''volume'', dict_get info ''volume'')]"
    by blast
  have "DAList.lookup q ''price'' = Some (PNum c)"
    "DAList.lookup q ''previous_close'' = Some (PNum p)"
    "DAList.lookup q ''change'' = Some (PNum d)"
    "DAList.lookup q ''change_percent'' = Some (PNum (num_mul_int rt r 100))"
    unfolding q by (simp_all add: dict_of_def DAList.lookup.rep_eq DAList.update.rep_eq
        DAList.empty.rep_eq)
  with nz sub dv show "\<exists>c p d r. \<not> num_is_zero rt p
         \<and> DAList.lookup q ''price'' = Some (PNum c)
         \<and> DAList.lookup q ''previous_close'' = Some (PNum p)
         \<and> num_sub rt c p = Inr d
         \<and> DAList.lookup q ''change'' = Some (PNum d)
         \<and> num_truediv rt d p = Inr r
         \<and> DAList.lookup q ''change_percent'' = Some (PNum (num_mul_int rt r 100))"
    by blast
next
  assume "get_quote (FinnhubProvider rt client) t = Inr (Some q')"
  from Finnhub_quote_shape [OF this] obtain resp c pc d dp where
    resp: "fh_quote client t = Inr (Some resp)" and
    look: "DAList.lookup resp ''c'' = Some (PNum c)" "DAList.lookup resp ''pc'' = Some pc"
      "DAList.lookup resp ''d'' = Some d" "DAList.lookup resp ''dp'' = Some dp" and
    q: "q' = dict_of
         [(''price'', PNum c),
          (''previous_close'', pc),
          (''change'', d),
          (''change_percent'', dp),
          (''high'', dict_get resp ''h''),
          (''low'', dict_get resp ''l''),
          (''open'', dict_get resp ''o'')]"
    by blast
  have "DAList.lookup q' ''price'' = Some (PNum c)"
    "DAList.lookup q' ''previous_close'' = Some pc"
    "DAList.lookup q' ''change'' = Some d"
    "DAList.lookup q' ''change_percent'' = Some dp"
    unfolding q by (simp_all add: dict_of_def DAList.lookup.rep_eq DAList.update.rep_eq
        DAList.empty.rep_eq)
  with resp look show "\<exists>resp. fh_quote client t = Inr (Some resp)
         \<and> DAList.lookup q' ''price'' = DAList.lookup resp ''c''
         \<and> DAList.lookup q' ''previous_close'' = DAList.lookup resp ''pc''
         \<and> DAList.lookup q' ''change'' = DAList.lookup resp ''d''
         \<and> DAList.lookup q' ''change_percent'' = DAList.lookup resp ''dp''"
    by simp
qed

text \<open>
  An instance for each provider class. The numbers are exact in floating point as well:
  150 - 120 is 30, 30 / 120 is 0.25, and 0.25 * 100 is 25.
\<close>

theorem change_fields_by_provider_witness:
  "get_quote (YFinanceProvider example_runtime yfinance_B) ''AAPL'' = Inr (Some scenario_quote_B)
   \<and> get_quote (FinnhubProvider example_runtime inconsistent_finnhub) ''ACME''
       = Inr (Some inconsistent_quote)
   \<and> DAList.lookup scenario_quote_B ''price'' = Some (PNum 150)
   \<and> DAList.lookup scenario_quote_B ''previous_close'' = Some (PNum 120)
   \<and> DAList.lookup scenario_quote_B ''change'' = Some (PNum 30)
   \<and> DAList.lookup scenario_quote_B ''change_percent'' = Some (PNum 25)
   \<and> DAList.lookup inconsistent_quote ''change'' = Some (PNum 0)
   \<and> DAList.lookup inconsistent_quote ''change_percent'' = Some (PNum 0)"
proof -
  have h1: "get_quote (YFinanceProvider example_runtime yfinance_B) ''AAPL''
      = Inr (Some scenario_quote_B)"
    by (simp add: scenario_quote_B_def provider_eval dict_eval)
  have h2: "get_quote (FinnhubProvider example_runtime inconsistent_finnhub) ''ACME''
      = Inr (Some inconsistent_quote)"
    by (simp add: inconsistent_finnhub_def inconsistent_quote_def provider_eval dict_eval)
  have price: "DAList.lookup scenario_quote_B ''price'' = Some (PNum 150)"
    "DAList.lookup scenario_quote_B ''previous_close'' = Some (PNum 120)"
    by (simp_all add: scenario_quote_B_def dict_eval)
  have resp: "fh_quote inconsistent_finnhub ''ACME'' = Inr (Some (dict_of
      [(''c'', PNum 10), (''pc'', PNum 8), (''d'', PNum 0), (''dp'', PNum 0)]))"
    by (simp add: inconsistent_finnhub_def const_finnhub_def)
  note inst1 = change_fields_by_provider
         [where rt = example_runtime and yf = yfinance_B and t = "''AAPL''"
            and q = scenario_quote_B]
  note inst2 = change_fields_by_provider
         [where rt = example_runtime and client = inconsistent_finnhub and t = "''ACME''"
            and q' = inconsistent_quote]
  from inst1 h1 price obtain c p d r where
    "Some (PNum 150) = Some (PNum c)" "Some (PNum 120) = Some (PNum p)"
    "num_sub example_runtime c p = Inr d"
    "DAList.lookup scenario_quote_B ''change'' = Some (PNum d)"
    "num_truediv example_runtime d p = Inr r"
    "DAList.lookup scenario_quote_B ''change_percent'' = Some (PNum (num_mul_int example_runtime r 100))"
    by metis
  then have y: "DAList.lookup scenario_quote_B ''change'' = Some (PNum 30)"
    "DAList.lookup scenario_quote_B ''change_percent'' = Some (PNum 25)"
    by (auto simp: example_runtime_def)
  from inst2 h2 resp have f: "DAList.lookup inconsistent_quote ''change'' = Some (PNum 0)"
    "DAList.lookup inconsistent_quote ''change_percent'' = Some (PNum 0)"
    by (simp_all add: dict_eval)
  from h1 h2 price y f show ?thesis
    by simp
qed

text \<open>
  Claim C8 as worded covers both provider classes. A Finnhub response with the price 10,
  the previous close 8 and a change of 0 gives a quote whose change is 0, not 2; the code
  does no arithmetic on the way.
\<close>

theorem Finnhub_change_not_recomputed_counterexample:
  "get_quote (FinnhubProvider example_runtime inconsistent_finnhub) ''ACME''
     = Inr (Some inconsistent_quote)
   \<and> DAList.lookup inconsistent_quote ''price'' = Some (PNum 10)
   \<and> DAList.lookup inconsistent_quote ''previous_close'' = Some (PNum 8)
   \<and> DAList.lookup inconsistent_quote ''change'' = Some (PNum 0)
   \<and> DAList.lookup inconsistent_quote ''change_percent'' = Some (PNum 0)
   \<and> num_sub example_runtime 10 8 = Inr 2
   \<and> (0 :: real) \<noteq> 2"
  by (simp add: inconsistent_finnhub_def inconsistent_quote_def provider_eval dict_eval)

end
